theory Spec2Isabelle
  imports Main "HOL-Library.AList"
begin

section \<open>Values\<close>

text \<open>
  JSON data as it reaches the engine in argument bags, default bodies and payloads. A
  number is given by the string that \<open>String\<close> yields for it (\<open>10\<close> is \<open>''10''\<close>, a
  fraction or a number in exponent form its usual rendering); the engine never
  calculates with numbers. A string is its UTF-8 bytes. An object literal lists the own
  properties in the order of their creation, with pairwise distinct keys.
\<close>

datatype json =
    JNull
  | JBool bool
  | JNum string
  | JStr string
  | JArr "json list"
  | JObj "(string \<times> json) list"

type_synonym jobject = "(string \<times> json) list"

text \<open>
  What reading a property of a plain object yields: \<open>undefined\<close>, own data, or a member
  inherited from \<open>Object.prototype\<close>: one of its native functions, or the prototype
  object itself under \<open>__proto__\<close>.
\<close>

datatype jvalue = JUndefined | Data json | Native string | ObjectPrototype

definition native_members :: "string list" where
  "native_members =
     [''__defineGetter__'', ''__defineSetter__'', ''hasOwnProperty'', ''__lookupGetter__'',
      ''__lookupSetter__'', ''isPrototypeOf'', ''propertyIsEnumerable'', ''toString'',
      ''valueOf'', ''toLocaleString'']"

definition inherited :: "string \<Rightarrow> jvalue" where
  "inherited k =
     (if k = ''__proto__'' then ObjectPrototype
      else if k = ''constructor'' then Native ''Object''
      else if k \<in> set native_members then Native k
      else JUndefined)"

text \<open>\<open>obj[key]\<close>: the own property, else the inherited member, else \<open>undefined\<close>.\<close>

definition get_prop :: "jobject \<Rightarrow> string \<Rightarrow> jvalue" where
  "get_prop obj k = (case map_of obj k of Some v \<Rightarrow> Data v | None \<Rightarrow> inherited k)"

text \<open>
  \<open>obj[key] = v\<close>: an existing own property is overwritten in place and a new one is
  appended, except that writing \<open>__proto__\<close> to an object without such an own property
  reaches the setter of \<open>Object.prototype\<close> and creates no own property.
\<close>

definition set_prop :: "string \<Rightarrow> 'v \<Rightarrow> (string \<times> 'v) list \<Rightarrow> (string \<times> 'v) list" where
  "set_prop k v obj =
     (if k = ''__proto__'' \<and> k \<notin> set (map fst obj) then obj else AList.update k v obj)"

text \<open>
  \<open>Object.entries(obj)\<close>: the own properties whose key is an array index (a canonical
  numeral up to \<open>2^32 - 2\<close>) in ascending order, then the others in the order of creation.
\<close>

definition index_value :: "string \<Rightarrow> nat" where
  "index_value k = foldl (\<lambda>a c. 10 * a + (of_char c - 48)) 0 k"

definition is_index :: "string \<Rightarrow> bool" where
  "is_index k \<longleftrightarrow>
     k \<noteq> [] \<and> list_all (\<lambda>c. c \<in> set ''0123456789'') k
     \<and> (k = ''0'' \<or> hd k \<noteq> CHR ''0'') \<and> index_value k \<le> 4294967294"

definition entries :: "(string \<times> 'v) list \<Rightarrow> (string \<times> 'v) list" where
  "entries obj =
     sort_key (\<lambda>kv. index_value (fst kv)) (filter (\<lambda>kv. is_index (fst kv)) obj)
     @ filter (\<lambda>kv. \<not> is_index (fst kv)) obj"

text \<open>Truthiness, as \<open>if (v)\<close> tests it.\<close>

fun truthy_json :: "json \<Rightarrow> bool" where
  "truthy_json JNull = False"
| "truthy_json (JBool b) = b"
| "truthy_json (JNum n) = (n \<noteq> ''0'' \<and> n \<noteq> ''NaN'')"
| "truthy_json (JStr s) = (s \<noteq> [])"
| "truthy_json (JArr xs) = True"
| "truthy_json (JObj kvs) = True"

fun truthy :: "jvalue \<Rightarrow> bool" where
  "truthy JUndefined = False"
| "truthy (Data v) = truthy_json v"
| "truthy (Native n) = True"
| "truthy ObjectPrototype = True"

text \<open>The test \<open>value === undefined || value === null || value === ''\<close>.\<close>

fun blank :: "jvalue \<Rightarrow> bool" where
  "blank JUndefined = True"
| "blank (Data JNull) = True"
| "blank (Data (JStr s)) = (s = [])"
| "blank v = False"

text \<open>
  What a \<open>throw\<close> carries: an \<open>Error\<close> (of any class) with its message, or another
  value.
\<close>

datatype thrown = ThrownError string | ThrownValue jvalue

subsection \<open>Strings\<close>

fun intercalate :: "string \<Rightarrow> string list \<Rightarrow> string" where
  "intercalate sep [] = []"
| "intercalate sep [x] = x"
| "intercalate sep (x # y # ys) = x @ sep @ intercalate sep (y # ys)"

text \<open>
  \<open>Array.prototype.join\<close> with a comma, over elements already coerced: the first
  element that throws ends the join.
\<close>

fun join_elements :: "(thrown + string) list \<Rightarrow> thrown + string" where
  "join_elements [] = Inr []"
| "join_elements [x] = x"
| "join_elements (x # y # ys) =
     (case x of
        Inl e \<Rightarrow> Inl e
      | Inr s \<Rightarrow> (case join_elements (y # ys) of Inl e \<Rightarrow> Inl e | Inr r \<Rightarrow> Inr (s @ '','' @ r)))"

text \<open>
  \<open>String(v)\<close>. An array is the join of its elements, \<open>null\<close> giving the empty string. A
  plain object is \<open>[object Object]\<close> through the inherited \<open>toString\<close>; with an own
  property \<open>toString\<close>, which holds data and cannot be called, the coercion falls to
  \<open>valueOf\<close>, finds no primitive and throws a \<open>TypeError\<close>. A native function is its
  source text as Node prints it.
\<close>

fun String_json :: "json \<Rightarrow> thrown + string" where
  "String_json JNull = Inr ''null''"
| "String_json (JBool b) = Inr (if b then ''true'' else ''false'')"
| "String_json (JNum n) = Inr n"
| "String_json (JStr s) = Inr s"
| "String_json (JArr xs) =
     join_elements (map (\<lambda>x. if x = JNull then Inr [] else String_json x) xs)"
| "String_json (JObj kvs) =
     (if ''toString'' \<in> set (map fst kvs)
      then Inl (ThrownError ''Cannot convert object to primitive value'')
      else Inr ''[object Object]'')"

fun String_js :: "jvalue \<Rightarrow> thrown + string" where
  "String_js JUndefined = Inr ''undefined''"
| "String_js (Data v) = String_json v"
| "String_js (Native n) = Inr (''function '' @ n @ ''() { [native code] }'')"
| "String_js ObjectPrototype = Inr ''[object Object]''"

fun startsWith :: "string \<Rightarrow> string \<Rightarrow> bool" where
  "startsWith s [] = True"
| "startsWith [] (p # ps) = False"
| "startsWith (c # cs) (p # ps) = (c = p \<and> startsWith cs ps)"

text \<open>\<open>s.includes(sub)\<close>.\<close>

fun includes_str :: "string \<Rightarrow> string \<Rightarrow> bool" where
  "includes_str [] sub = (sub = [])"
| "includes_str (c # cs) sub = (startsWith (c # cs) sub \<or> includes_str cs sub)"

text \<open>
  \<open>s.replace(pat, rep)\<close> with a string pattern: only the first occurrence is replaced.
  The replacement is taken literally; the caller below only passes percent-encoded
  replacements, which hold no dollar sign (\<open>encode_no_dollar\<close>).
\<close>

fun replace_first :: "string \<Rightarrow> string \<Rightarrow> string \<Rightarrow> string" where
  "replace_first pat rep [] = (if pat = [] then rep else [])"
| "replace_first pat rep (c # cs) =
     (if startsWith (c # cs) pat then rep @ drop (length pat) (c # cs)
      else c # replace_first pat rep cs)"

definition placeholder :: "string \<Rightarrow> string" where
  "placeholder k = ''{'' @ k @ ''}''"

text \<open>
  \<open>s.split(',')\<close>, and \<open>s.trim()\<close>, which removes the white space and line terminators of
  the language at both ends (given here by their UTF-8 bytes).
\<close>

fun split_on :: "char \<Rightarrow> string \<Rightarrow> string list" where
  "split_on d [] = [[]]"
| "split_on d (c # cs) =
     (if c = d then [] # split_on d cs
      else (case split_on d cs of [] \<Rightarrow> [[c]] | w # ws \<Rightarrow> (c # w) # ws))"

definition white_space :: "string list" where
  "white_space =
     [[CHR 0x09], [CHR 0x0A], [CHR 0x0B], [CHR 0x0C], [CHR 0x0D], [CHR 0x20],
      [CHR 0xC2, CHR 0xA0], [CHR 0xE1, CHR 0x9A, CHR 0x80],
      [CHR 0xE2, CHR 0x80, CHR 0x80], [CHR 0xE2, CHR 0x80, CHR 0x81],
      [CHR 0xE2, CHR 0x80, CHR 0x82], [CHR 0xE2, CHR 0x80, CHR 0x83],
      [CHR 0xE2, CHR 0x80, CHR 0x84], [CHR 0xE2, CHR 0x80, CHR 0x85],
      [CHR 0xE2, CHR 0x80, CHR 0x86], [CHR 0xE2, CHR 0x80, CHR 0x87],
      [CHR 0xE2, CHR 0x80, CHR 0x88], [CHR 0xE2, CHR 0x80, CHR 0x89],
      [CHR 0xE2, CHR 0x80, CHR 0x8A], [CHR 0xE2, CHR 0x80, CHR 0xA8],
      [CHR 0xE2, CHR 0x80, CHR 0xA9], [CHR 0xE2, CHR 0x80, CHR 0xAF],
      [CHR 0xE2, CHR 0x81, CHR 0x9F], [CHR 0xE3, CHR 0x80, CHR 0x80],
      [CHR 0xEF, CHR 0xBB, CHR 0xBF]]"

text \<open>Removing, as long as there is one, a leading occurrence of one of the sequences.\<close>

function strip :: "string list \<Rightarrow> string \<Rightarrow> string" where
  "strip seqs s =
     (case List.find (\<lambda>w. w \<noteq> [] \<and> startsWith s w) seqs of
        None \<Rightarrow> s
      | Some w \<Rightarrow> strip seqs (drop (length w) s))"
  by pat_completeness auto
termination
proof (relation "measure (\<lambda>(seqs, s). length s)")
  show "wf (measure (\<lambda>(seqs, s). length s))" by simp
next
  fix seqs :: "string list" and s w :: string
  assume "List.find (\<lambda>w. w \<noteq> [] \<and> startsWith s w) seqs = Some w"
  then have "w \<noteq> []" and "startsWith s w"
    by (auto simp: find_Some_iff)
  then have "s \<noteq> []" by (cases s; cases w) auto
  with \<open>w \<noteq> []\<close> show "((seqs, drop (length w) s), (seqs, s)) \<in> measure (\<lambda>(seqs, s). length s)"
    by simp
qed

declare strip.simps [simp del]

definition trim :: "string \<Rightarrow> string" where
  "trim s = rev (strip (map rev white_space) (rev (strip white_space s)))"

subsection \<open>Percent-encoding\<close>

text \<open>
  \<open>encodeURIComponent\<close> on the UTF-8 bytes: every byte that is no unreserved character
  is escaped. (A lone surrogate, on which the function throws, is no UTF-8 string.)
\<close>

definition unreserved :: "char \<Rightarrow> bool" where
  "unreserved c \<longleftrightarrow>
     c \<in> set (''ABCDEFGHIJKLMNOPQRSTUVWXYZabcdefghijklmnopqrstuvwxyz0123456789-_.!~*()'' @ [CHR 0x27])"

definition hexdigit :: "nat \<Rightarrow> char" where
  "hexdigit n = ''0123456789ABCDEF'' ! n"

definition pct :: "char \<Rightarrow> string" where
  "pct c = [CHR ''%'', hexdigit (of_char c div 16), hexdigit (of_char c mod 16)]"

text \<open>The characters of an escape sequence.\<close>

definition pct_alphabet :: "char set" where
  "pct_alphabet = set ''%0123456789ABCDEF''"

definition encodeURIComponent :: "string \<Rightarrow> string" where
  "encodeURIComponent s = concat (map (\<lambda>c. if unreserved c then [c] else pct c) s)"

section \<open>Endpoint descriptors and the registry\<close>

text \<open>
  Field names are those of the source, except where a name is taken: the descriptor's
  \<open>method\<close> is \<open>http_method\<close>, a parameter's \<open>name\<close>, \<open>description\<close> and \<open>type\<close>
  are \<open>param_name\<close>, \<open>param_description\<close> and \<open>param_type\<close>.
\<close>

record EndpointParam =
  param_name :: string
  param_description :: string
  param_type :: string
  required :: bool

record Endpoint =
  toolName :: string
  path :: string
  description :: string
  http_method :: string
  parameters :: "EndpointParam list"
  defaultBody :: "jobject option"
  apiType :: string
  requiresSiteId :: "bool option"

datatype log_level = LWarn | LError

text \<open>
  What reading the catalog file gives. \<open>ReadFailure\<close>: \<open>readFileSync\<close> or \<open>JSON.parse\<close>
  throws (with the error's text). \<open>NullDocument\<close>: the document is \<open>null\<close>, and reading
  its \<open>endpoints\<close> throws. \<open>Config\<close>: any other document; its \<open>endpoints\<close> member is
  \<open>Some\<close> list of descriptors exactly when it is an array. \<open>NullElement\<close>: the member
  is an array with a \<open>null\<close> element, given with the descriptors before that element;
  reading the element's \<open>toolName\<close> throws in the middle of the indexing loop.
\<close>

datatype catalog_read =
    ReadFailure string
  | Config "Endpoint list option"
  | NullDocument
  | NullElement "Endpoint list"

record EndpointLoader =
  endpoints :: "Endpoint list"
  endpointMap :: "(string \<times> Endpoint) list"
  logger :: "(log_level \<times> string) list"

definition get_catalogs_default :: Endpoint where
  "get_catalogs_default =
     \<lparr>toolName = ''get_catalogs'', path = ''/catalogs'',
      description = ''Get a list of available catalogs'', http_method = ''GET'',
      parameters = [], defaultBody = None, apiType = ''ocapi'',
      requiresSiteId = Some False\<rparr>"

definition getDefaultEndpoints :: "Endpoint list" where
  "getDefaultEndpoints = [get_catalogs_default]"

definition null_read :: "string \<Rightarrow> string" where
  "null_read member =
     ''TypeError: Cannot read properties of null (reading '' @ [CHR 0x27] @ member
       @ [CHR 0x27] @ '')''"

text \<open>
  \<open>loadEndpoints\<close>: warnings and errors written to the logger are recorded; debug lines
  are not. The index is a \<open>Map\<close>, written with \<open>AList.update\<close>.
\<close>

definition loadEndpoints :: "catalog_read \<Rightarrow> EndpointLoader \<Rightarrow> EndpointLoader" where
  "loadEndpoints src l =
     (case src of
        ReadFailure err \<Rightarrow>
          l\<lparr>endpoints := getDefaultEndpoints,
            logger := logger l @ [(LError, ''Failed to load endpoints: '' @ err)]\<rparr>
      | Config None \<Rightarrow>
          l\<lparr>endpoints := [],
            logger := logger l @ [(LWarn, ''No endpoints found in configuration'')]\<rparr>
      | Config (Some es) \<Rightarrow>
          l\<lparr>endpoints := es,
            endpointMap := fold (\<lambda>e m. AList.update (toolName e) e m) es (endpointMap l)\<rparr>
      | NullDocument \<Rightarrow>
          l\<lparr>endpoints := getDefaultEndpoints,
            logger := logger l
              @ [(LError, ''Failed to load endpoints: '' @ null_read ''endpoints'')]\<rparr>
      | NullElement es \<Rightarrow>
          l\<lparr>endpoints := getDefaultEndpoints,
            endpointMap := fold (\<lambda>e m. AList.update (toolName e) e m) es (endpointMap l),
            logger := logger l
              @ [(LError, ''Failed to load endpoints: '' @ null_read ''toolName'')]\<rparr>)"

text \<open>The constructor: empty fields, then \<open>loadEndpoints\<close>.\<close>

definition new_EndpointLoader :: "catalog_read \<Rightarrow> EndpointLoader" where
  "new_EndpointLoader src = loadEndpoints src \<lparr>endpoints = [], endpointMap = [], logger = []\<rparr>"

definition reload :: "catalog_read \<Rightarrow> EndpointLoader \<Rightarrow> EndpointLoader" where
  "reload src l = loadEndpoints src (l\<lparr>endpoints := [], endpointMap := []\<rparr>)"

definition getEndpoints :: "EndpointLoader \<Rightarrow> Endpoint list" where
  "getEndpoints l = endpoints l"

definition getEndpoint :: "EndpointLoader \<Rightarrow> string \<Rightarrow> Endpoint option" where
  "getEndpoint l n = map_of (endpointMap l) n"

definition getOCAPIEndpoints :: "EndpointLoader \<Rightarrow> Endpoint list" where
  "getOCAPIEndpoints l = filter (\<lambda>e. apiType e = ''ocapi'') (endpoints l)"

definition getSCAPIEndpoints :: "EndpointLoader \<Rightarrow> Endpoint list" where
  "getSCAPIEndpoints l = filter (\<lambda>e. apiType e = ''scapi'') (endpoints l)"

definition getToolNames :: "EndpointLoader \<Rightarrow> string list" where
  "getToolNames l = map toolName (endpoints l)"

definition getToolNameSet :: "EndpointLoader \<Rightarrow> string set" where
  "getToolNameSet l = set (getToolNames l)"

definition hasEndpoint :: "EndpointLoader \<Rightarrow> string \<Rightarrow> bool" where
  "hasEndpoint l n \<longleftrightarrow> n \<in> set (map fst (endpointMap l))"

text \<open>Two descriptors that share a tool name, for the behaviour on duplicates.\<close>

definition dup_first :: Endpoint where
  "dup_first = \<lparr>toolName = ''get_item'', path = ''/first'', description = ''first'',
     http_method = ''GET'', parameters = [], defaultBody = None, apiType = ''ocapi'',
     requiresSiteId = None\<rparr>"

definition dup_second :: Endpoint where
  "dup_second = \<lparr>toolName = ''get_item'', path = ''/second'', description = ''second'',
     http_method = ''GET'', parameters = [], defaultBody = None, apiType = ''ocapi'',
     requiresSiteId = None\<rparr>"

section \<open>The dispatcher (DataAPIClient)\<close>

text \<open>
  The path parameters are strings, as their type says; a query parameter is whatever
  was read from the argument bag, and \<open>undefined\<close> when a caller passes that.
\<close>

record DataAPIRequestParams =
  pathParams :: "(string \<times> string) list option"
  queryParams :: "(string \<times> jvalue) list option"
  body :: "jobject option"

record DataAPIResponse =
  data :: jvalue
  status :: nat
  success :: bool
  error :: "string option"

record OCAPIConfig =
  hostname :: "string option"
  clientId :: "string option"
  clientSecret :: "string option"
  cfg_siteId :: "string option"
  version :: "string option"

record DataAPIClient =
  baseUrl :: string
  siteId :: "string option"
  client_endpointLoader :: EndpointLoader

text \<open>
  The verb-specific calls \<open>get\<close>, \<open>post\<close>, \<open>put\<close>, \<open>patch\<close> and \<open>delete\<close> are inherited
  from the authenticating base class, which is outside the dispatcher: they are one
  parameter of the model, a function from the request to either what the call throws or
  the payload it resolves to.
\<close>

record http_request =
  req_verb :: string
  req_url :: string
  req_body :: "jobject option"

type_synonym transport = "http_request \<Rightarrow> thrown + jvalue"

text \<open>
  The constructor; \<open>buildOCAPIBaseUrl\<close> is a parameter, and the loader is the shared
  instance.
\<close>

definition new_DataAPIClient ::
  "(OCAPIConfig \<Rightarrow> string) \<Rightarrow> EndpointLoader \<Rightarrow> OCAPIConfig \<Rightarrow> DataAPIClient" where
  "new_DataAPIClient buildOCAPIBaseUrl loader config =
     \<lparr>baseUrl = buildOCAPIBaseUrl config, siteId = cfg_siteId config,
      client_endpointLoader = loader\<rparr>"

text \<open>\<open>buildUrl\<close>, first loop: one \<open>replace\<close> for every entry, in the order given.\<close>

definition substitutePath :: "string \<Rightarrow> (string \<times> string) list \<Rightarrow> string" where
  "substitutePath p pp =
     fold (\<lambda>(key, value) acc. replace_first (placeholder key) (encodeURIComponent value) acc) pp p"

text \<open>
  \<open>buildUrl\<close>, second loop over the entries in the order given: the string coercion of
  every value that is not blank is written into a new object; a coercion that throws
  ends the loop.
\<close>

fun collect_from ::
  "(string \<times> jvalue) list \<Rightarrow> (string \<times> string) list \<Rightarrow> thrown + (string \<times> string) list" where
  "collect_from [] acc = Inr acc"
| "collect_from ((key, value) # rest) acc =
     (if \<not> blank value
      then (case String_js value of
              Inl e \<Rightarrow> Inl e
            | Inr s \<Rightarrow> collect_from rest (set_prop key s acc))
      else collect_from rest acc)"

definition collectQuery :: "(string \<times> jvalue) list \<Rightarrow> thrown + (string \<times> string) list" where
  "collectQuery qp = collect_from (entries qp) []"

definition buildUrl :: "Endpoint \<Rightarrow> DataAPIRequestParams \<Rightarrow> thrown + string" where
  "buildUrl endpoint params =
     (let p = (case pathParams params of
                 None \<Rightarrow> path endpoint
               | Some pp \<Rightarrow> substitutePath (path endpoint) (entries pp))
      in case (case queryParams params of None \<Rightarrow> Inr [] | Some qp \<Rightarrow> collectQuery qp) of
           Inl e \<Rightarrow> Inl e
         | Inr qs \<Rightarrow>
             (let queryString = intercalate ''&''
                    (map (\<lambda>(key, value). encodeURIComponent key @ ''='' @ encodeURIComponent value)
                       (entries qs))
              in Inr (if queryString \<noteq> [] then p @ ''?'' @ queryString else p)))"

text \<open>
  Query-string construction in the specification's words, over a list of entries: the
  entries whose value is \<open>undefined\<close>, \<open>null\<close> or the empty string are skipped; of the
  others, key and string-coerced value are percent-encoded and written \<open>key=value\<close>; the
  pairs are joined with \<open>&\<close> after a \<open>?\<close>, and nothing at all is written when no entry
  survives. \<open>coerced\<close> is the string a coercion yields when it does not throw.
\<close>

definition coerced :: "jvalue \<Rightarrow> string" where
  "coerced v = (case String_js v of Inr s \<Rightarrow> s | Inl e \<Rightarrow> [])"

definition spec_query :: "(string \<times> jvalue) list \<Rightarrow> string" where
  "spec_query qp =
     (let kept = filter (\<lambda>(key, value). \<not> blank value) qp
      in if kept = [] then []
         else ''?'' @ intercalate ''&''
                (map (\<lambda>(key, value).
                        encodeURIComponent key @ ''='' @ encodeURIComponent (coerced value))
                   kept))"

text \<open>\<open>Object.assign(target, source)\<close>.\<close>

definition assign :: "jobject \<Rightarrow> jobject \<Rightarrow> jobject" where
  "assign target source = fold (\<lambda>(k, v) acc. set_prop k v acc) (entries source) target"

text \<open>The clone \<open>{ ...obj }\<close> creates the enumerated properties anew.\<close>

definition buildRequestBody :: "Endpoint \<Rightarrow> DataAPIRequestParams \<Rightarrow> jobject" where
  "buildRequestBody endpoint params =
     (let b = (case defaultBody endpoint of None \<Rightarrow> [] | Some d \<Rightarrow> entries d)
      in case body params of None \<Rightarrow> b | Some pb \<Rightarrow> assign b pb)"

text \<open>
  The \<open>try\<close> block of \<open>executeEndpoint\<close>: what it throws or returns, and the requests it
  has handed to the transport. The URL is built first; when that throws, nothing is
  requested.
\<close>

definition dispatch ::
  "transport \<Rightarrow> Endpoint \<Rightarrow> DataAPIRequestParams \<Rightarrow> (thrown + jvalue) \<times> http_request list" where
  "dispatch tr endpoint params =
     (case buildUrl endpoint params of
        Inl e \<Rightarrow> (Inl e, [])
      | Inr url \<Rightarrow>
          (let m = http_method endpoint;
               plain = \<lparr>req_verb = m, req_url = url, req_body = None\<rparr>;
               withBody = \<lparr>req_verb = m, req_url = url,
                           req_body = Some (buildRequestBody endpoint params)\<rparr>
           in if m = ''GET'' then (tr plain, [plain])
              else if m = ''POST'' then (tr withBody, [withBody])
              else if m = ''PUT'' then (tr withBody, [withBody])
              else if m = ''PATCH'' then (tr withBody, [withBody])
              else if m = ''DELETE'' then (tr plain, [plain])
              else (Inl (ThrownError (''Unsupported HTTP method: '' @ m)), [])))"

definition failure :: "nat \<Rightarrow> string \<Rightarrow> DataAPIResponse" where
  "failure code msg = \<lparr>data = Data JNull, status = code, success = False, error = Some msg\<rparr>"

text \<open>
  The \<open>catch\<close> block. Its log line holds \<open>${error}\<close>: for an \<open>Error\<close> that is its name and
  message; for another value it is the string coercion, which may throw, and then the
  block throws. Otherwise the response carries \<open>error.message\<close> of an \<open>Error\<close> and
  \<open>String(error)\<close> of another value.
\<close>

definition catch_block :: "thrown \<Rightarrow> thrown + DataAPIResponse" where
  "catch_block e =
     (case e of
        ThrownError m \<Rightarrow> Inr (failure 500 m)
      | ThrownValue v \<Rightarrow>
          (case String_js v of Inl e' \<Rightarrow> Inl e' | Inr s \<Rightarrow> Inr (failure 500 s)))"

text \<open>
  \<open>executeEndpoint\<close>: the response the promise resolves to, or what it rejects with
  (\<open>Inl\<close>), and the requests made.
\<close>

definition executeEndpoint ::
  "DataAPIClient \<Rightarrow> transport \<Rightarrow> string \<Rightarrow> DataAPIRequestParams
     \<Rightarrow> (thrown + DataAPIResponse) \<times> http_request list" where
  "executeEndpoint c tr name params =
     (case getEndpoint (client_endpointLoader c) name of
        None \<Rightarrow> (Inr (failure 400 (''Unknown endpoint: '' @ name)), [])
      | Some endpoint \<Rightarrow>
          (case dispatch tr endpoint params of
             (Inr result, calls) \<Rightarrow>
               (Inr \<lparr>data = result, status = 200, success = True, error = None\<rparr>, calls)
           | (Inl e, calls) \<Rightarrow> (catch_block e, calls)))"

definition getSiteId :: "DataAPIClient \<Rightarrow> string option" where
  "getSiteId c = siteId c"

definition setSiteId :: "string \<Rightarrow> DataAPIClient \<Rightarrow> DataAPIClient" where
  "setSiteId s c = c\<lparr>siteId := Some s\<rparr>"

definition getAvailableEndpoints :: "DataAPIClient \<Rightarrow> Endpoint list" where
  "getAvailableEndpoints c = getEndpoints (client_endpointLoader c)"

definition client_hasEndpoint :: "DataAPIClient \<Rightarrow> string \<Rightarrow> bool" where
  "client_hasEndpoint c n = hasEndpoint (client_endpointLoader c) n"

subsection \<open>Path templates\<close>

text \<open>
  A path template as the specification describes it: literal text and named
  placeholders. \<open>render\<close> gives the string a descriptor carries. In a well-formed
  template no literal holds an opening brace and no placeholder name holds a brace.
\<close>

datatype seg = Lit string | Hole string

fun render_seg :: "seg \<Rightarrow> string" where
  "render_seg (Lit s) = s"
| "render_seg (Hole n) = placeholder n"

definition render :: "seg list \<Rightarrow> string" where
  "render ts = concat (map render_seg ts)"

fun wf_seg :: "seg \<Rightarrow> bool" where
  "wf_seg (Lit s) = (CHR ''{'' \<notin> set s)"
| "wf_seg (Hole n) = (CHR ''{'' \<notin> set n \<and> CHR ''}'' \<notin> set n)"

definition wf_template :: "seg list \<Rightarrow> bool" where
  "wf_template ts = list_all wf_seg ts"

fun holes :: "seg list \<Rightarrow> string list" where
  "holes [] = []"
| "holes (Lit s # ts) = holes ts"
| "holes (Hole n # ts) = n # holes ts"

text \<open>
  Path construction in the specification's words: every placeholder is replaced by the
  percent-encoded value of its entry in \<open>pathParams\<close>, and a placeholder without an
  entry is left as it is.
\<close>

fun fill_seg :: "(string \<times> string) list \<Rightarrow> seg \<Rightarrow> string" where
  "fill_seg pp (Lit s) = s"
| "fill_seg pp (Hole n) =
     (case map_of pp n of Some v \<Rightarrow> encodeURIComponent v | None \<Rightarrow> placeholder n)"

definition spec_path :: "(string \<times> string) list \<Rightarrow> seg list \<Rightarrow> string" where
  "spec_path pp ts = concat (map (fill_seg pp) ts)"

text \<open>Replacing the first placeholder of a given name by literal text.\<close>

fun subst1 :: "string \<Rightarrow> string \<Rightarrow> seg list \<Rightarrow> seg list" where
  "subst1 k r [] = []"
| "subst1 k r (Lit s # ts) = Lit s # subst1 k r ts"
| "subst1 k r (Hole n # ts) = (if n = k then Lit r # ts else Hole n # subst1 k r ts)"

text \<open>Example descriptors and requests.\<close>

definition get_product_endpoint :: Endpoint where
  "get_product_endpoint =
     \<lparr>toolName = ''get_product'', path = ''/sites/{site_id}/products/{product_id}'',
      description = ''Get product'', http_method = ''GET'',
      parameters =
        [\<lparr>param_name = ''site_id'', param_description = ''Site ID'',
          param_type = ''string'', required = True\<rparr>,
         \<lparr>param_name = ''product_id'', param_description = ''Product ID'',
          param_type = ''string'', required = True\<rparr>,
         \<lparr>param_name = ''expand'', param_description = ''Expand'',
          param_type = ''string'', required = False\<rparr>],
      defaultBody = None, apiType = ''ocapi'', requiresSiteId = Some True\<rparr>"

definition repeated_endpoint :: Endpoint where
  "repeated_endpoint =
     \<lparr>toolName = ''get_mirror'', path = ''/a/{x}/b/{x}'',
      description = ''A placeholder used twice'', http_method = ''GET'',
      parameters = [], defaultBody = None, apiType = ''ocapi'', requiresSiteId = None\<rparr>"

definition trace_endpoint :: Endpoint where
  "trace_endpoint =
     get_catalogs_default\<lparr>toolName := ''trace_catalogs'', http_method := ''TRACE''\<rparr>"

definition demo_client :: DataAPIClient where
  "demo_client =
     \<lparr>baseUrl = ''https://host/s/-/dw/data/v21_3'', siteId = Some ''RefArch'',
      client_endpointLoader =
        new_EndpointLoader
          (Config (Some [get_catalogs_default, trace_endpoint, get_product_endpoint]))\<rparr>"

definition no_params :: DataAPIRequestParams where
  "no_params = \<lparr>pathParams = None, queryParams = None, body = None\<rparr>"

text \<open>An object that cannot be coerced to a string: \<open>{"toString": 5}\<close>.\<close>

definition no_string :: json where
  "no_string = JObj [(''toString'', JNum ''5'')]"

section \<open>The request builder and the tool handler (DataAPIToolHandler)\<close>

text \<open>
  The table of search fields; the builder is only called with the tool names of
  \<open>getToolConfig\<close>, none of which names a member of \<open>Object.prototype\<close>.
\<close>

definition getSearchFieldsForTool :: "string \<Rightarrow> string list" where
  "getSearchFieldsForTool tool =
     (if tool = ''search_products'' then [''id'', ''name'']
      else if tool = ''search_customers'' then [''email'', ''first_name'', ''last_name'']
      else if tool = ''search_orders'' then [''order_no'', ''customer_email'']
      else [''id'', ''name''])"

definition text_query :: "string list \<Rightarrow> json \<Rightarrow> json" where
  "text_query fs phrase =
     JObj [(''text_query'', JObj [(''fields'', JArr (map JStr fs)), (''search_phrase'', phrase)])]"

definition term_query :: "json \<Rightarrow> json" where
  "term_query v =
     JObj [(''term_query'',
            JObj [(''fields'', JArr [JStr ''campaign_id'']), (''operator'', JStr ''is''),
                  (''values'', JArr [v])])]"

text \<open>
  The loop over the declared parameters, with the two objects built so far. The string
  coercion of a path parameter may throw, which ends the loop.
\<close>

fun classify ::
  "Endpoint \<Rightarrow> jobject \<Rightarrow> EndpointParam list
     \<Rightarrow> (string \<times> string) list \<times> (string \<times> jvalue) list
     \<Rightarrow> thrown + (string \<times> string) list \<times> (string \<times> jvalue) list" where
  "classify endpoint args [] acc = Inr acc"
| "classify endpoint args (param # rest) acc =
     (let value = get_prop args (param_name param)
      in if blank value then classify endpoint args rest acc
         else if includes_str (path endpoint) (placeholder (param_name param))
           then (case String_js value of
                   Inl e \<Rightarrow> Inl e
                 | Inr s \<Rightarrow>
                     classify endpoint args rest (set_prop (param_name param) s (fst acc), snd acc))
         else if param_name param \<noteq> ''query''
           then classify endpoint args rest (fst acc, set_prop (param_name param) value (snd acc))
         else classify endpoint args rest acc)"

text \<open>
  The block for search requests, from the clone of the default body on. The arguments
  it reads (\<open>query\<close>, \<open>count\<close>, \<open>start\<close>, \<open>expand\<close>, \<open>campaign_id\<close>) name no member of
  \<open>Object.prototype\<close>, so each read is own data or \<open>undefined\<close> (\<open>get_prop_plain\<close>).
  \<open>split\<close> on a truthy \<open>expand\<close> that is no string throws a \<open>TypeError\<close>.
\<close>

definition buildSearchBody :: "string \<Rightarrow> jobject \<Rightarrow> jobject \<Rightarrow> thrown + jobject" where
  "buildSearchBody tool args defaults =
     (let b0 = entries defaults;
          b1 = (case get_prop args ''query'' of
                  Data q \<Rightarrow>
                    if truthy_json q
                    then set_prop ''query'' (text_query (getSearchFieldsForTool tool) q) b0
                    else b0
                | _ \<Rightarrow> b0);
          b2 = (case get_prop args ''count'' of Data n \<Rightarrow> set_prop ''count'' n b1 | _ \<Rightarrow> b1);
          b3 = (case get_prop args ''start'' of Data n \<Rightarrow> set_prop ''start'' n b2 | _ \<Rightarrow> b2);
          b4 = (case get_prop args ''expand'' of
                  Data x \<Rightarrow>
                    if truthy_json x
                    then (case x of
                            JStr e \<Rightarrow>
                              Inr (set_prop ''expand''
                                     (JArr (map (\<lambda>w. JStr (trim w)) (split_on CHR '','' e))) b3)
                          | _ \<Rightarrow> Inl (ThrownError ''args.expand.split is not a function''))
                    else Inr b3
                | _ \<Rightarrow> Inr b3)
      in case b4 of
           Inl e \<Rightarrow> Inl e
         | Inr b \<Rightarrow>
             Inr (case get_prop args ''campaign_id'' of
                    Data c \<Rightarrow>
                      if tool = ''search_promotions'' \<and> truthy_json c
                      then set_prop ''query'' (term_query c) b
                      else b
                  | _ \<Rightarrow> b))"

definition buildRequestParams ::
  "EndpointLoader \<Rightarrow> string \<Rightarrow> jobject \<Rightarrow> thrown + DataAPIRequestParams" where
  "buildRequestParams loader tool args =
     (case getEndpoint loader tool of
        None \<Rightarrow> Inr \<lparr>pathParams = Some [], queryParams = Some [], body = None\<rparr>
      | Some endpoint \<Rightarrow>
          (case classify endpoint args (parameters endpoint) ([], []) of
             Inl e \<Rightarrow> Inl e
           | Inr pq \<Rightarrow>
               (case (if http_method endpoint = ''POST'' then defaultBody endpoint else None) of
                  None \<Rightarrow>
                    Inr \<lparr>pathParams = Some (fst pq), queryParams = Some (snd pq), body = None\<rparr>
                | Some defaults \<Rightarrow>
                    (case buildSearchBody tool args defaults of
                       Inl e \<Rightarrow> Inl e
                     | Inr b \<Rightarrow>
                         Inr \<lparr>pathParams = Some (fst pq), queryParams = Some (snd pq),
                              body = Some b\<rparr>))))"

text \<open>
  The handler's \<open>executeEndpoint\<close>: what it throws or returns, and the requests made. A
  rejection of the dispatcher's promise passes through.
\<close>

definition not_initialized :: string where
  "not_initialized = ''Data API client not initialized. Check OCAPI credentials.''"

definition handler_executeEndpoint ::
  "DataAPIClient option \<Rightarrow> EndpointLoader \<Rightarrow> transport \<Rightarrow> string \<Rightarrow> jobject
     \<Rightarrow> (thrown + jvalue) \<times> http_request list" where
  "handler_executeEndpoint client loader tr tool args =
     (case client of
        None \<Rightarrow> (Inl (ThrownError not_initialized), [])
      | Some c \<Rightarrow>
          (case buildRequestParams loader tool args of
             Inl e \<Rightarrow> (Inl e, [])
           | Inr params \<Rightarrow>
               (case executeEndpoint c tr tool params of
                  (Inl e, calls) \<Rightarrow> (Inl e, calls)
                | (Inr response, calls) \<Rightarrow>
                    if \<not> success response
                    then (Inl (ThrownError
                            (case error response of
                               Some m \<Rightarrow> m | None \<Rightarrow> ''Unknown error occurred'')), calls)
                    else (Inr (data response), calls))))"

subsection \<open>Capabilities and initialisation\<close>

record SFCCConfig =
  sf_hostname :: "string option"
  username :: "string option"
  password :: "string option"
  sf_clientId :: "string option"
  sf_clientSecret :: "string option"
  sf_siteId :: "string option"
  shortCode :: "string option"
  organizationId :: "string option"

record Capabilities =
  canAccessLogs :: bool
  canAccessOCAPI :: bool
  canAccessWebDAV :: bool
  isLocalMode :: bool

definition given :: "string option \<Rightarrow> bool" where
  "given v = (case v of None \<Rightarrow> False | Some s \<Rightarrow> s \<noteq> [])"

definition getCapabilities :: "SFCCConfig \<Rightarrow> Capabilities" where
  "getCapabilities cfg =
     (let hasWebDAVCredentials =
            ((given (username cfg) \<and> given (password cfg))
             \<or> (given (sf_clientId cfg) \<and> given (sf_clientSecret cfg)));
          hasOAuthCredentials = (given (sf_clientId cfg) \<and> given (sf_clientSecret cfg));
          hasHostname =
            (case sf_hostname cfg of None \<Rightarrow> False | Some h \<Rightarrow> h \<noteq> [] \<and> trim h \<noteq> [])
      in \<lparr>canAccessLogs = (hasWebDAVCredentials \<and> hasHostname),
          canAccessOCAPI = (hasOAuthCredentials \<and> hasHostname),
          canAccessWebDAV = (hasWebDAVCredentials \<and> hasHostname),
          isLocalMode = (\<not> hasHostname \<and> \<not> hasWebDAVCredentials)\<rparr>)"

record HandlerContext =
  config :: SFCCConfig
  capabilities :: Capabilities

record DataAPIToolHandler =
  handler_context :: HandlerContext
  dataAPIClient :: "DataAPIClient option"
  toolNameSet :: "string set"
  endpointLoader :: EndpointLoader
  isInitialized :: bool
  handler_logger :: "(log_level \<times> string) list"

definition new_DataAPIToolHandler :: "HandlerContext \<Rightarrow> EndpointLoader \<Rightarrow> DataAPIToolHandler" where
  "new_DataAPIToolHandler ctx loader =
     \<lparr>handler_context = ctx, dataAPIClient = None, toolNameSet = getToolNameSet loader,
      endpointLoader = loader, isInitialized = False, handler_logger = []\<rparr>"

definition onInitialize ::
  "(OCAPIConfig \<Rightarrow> string) \<Rightarrow> DataAPIToolHandler \<Rightarrow> DataAPIToolHandler" where
  "onInitialize buildOCAPIBaseUrl h =
     (if \<not> canAccessOCAPI (capabilities (handler_context h))
      then h\<lparr>handler_logger := handler_logger h @
             [(LWarn, ''OCAPI access not available - Data API handler will not be functional'')]\<rparr>
      else h\<lparr>dataAPIClient :=
               Some (new_DataAPIClient buildOCAPIBaseUrl (endpointLoader h)
                 \<lparr>hostname = sf_hostname (config (handler_context h)),
                  clientId = sf_clientId (config (handler_context h)),
                  clientSecret = sf_clientSecret (config (handler_context h)),
                  cfg_siteId = sf_siteId (config (handler_context h)),
                  version = None\<rparr>)\<rparr>)"

definition onDispose :: "DataAPIToolHandler \<Rightarrow> DataAPIToolHandler" where
  "onDispose h = h\<lparr>dataAPIClient := None\<rparr>"

text \<open>The required arguments that \<open>getToolConfig\<close> gives to \<open>validateArgs\<close>, per tool.\<close>

definition getToolConfig :: "(string \<times> string list) list" where
  "getToolConfig =
     [(''search_products'', []),
      (''get_product'', [''site_id'', ''product_id'']),
      (''get_catalogs'', []),
      (''get_catalog'', [''catalog_id'']),
      (''get_categories'', [''catalog_id'']),
      (''get_category'', [''catalog_id'', ''category_id'']),
      (''get_sites'', []),
      (''get_site'', [''site_id'']),
      (''search_campaigns'', [''site_id'']),
      (''get_campaign'', [''site_id'', ''campaign_id'']),
      (''search_promotions'', [''site_id'']),
      (''search_coupons'', [''site_id'']),
      (''get_inventory_lists'', []),
      (''get_inventory_list'', [''inventory_list_id'']),
      (''get_product_inventory'', [''inventory_list_id'', ''product_id'']),
      (''search_customers'', [''site_id'']),
      (''get_customer'', [''site_id'', ''customer_id'']),
      (''get_customer_groups'', [''site_id'']),
      (''search_custom_objects'', [''object_type'']),
      (''get_custom_object'', [''object_type'', ''key'']),
      (''search_orders'', [''site_id'']),
      (''get_order'', [''site_id'', ''order_no'']),
      (''get_locales'', []),
      (''get_currencies'', []),
      (''get_price_books'', []),
      (''get_price_book'', [''price_book_id'']),
      (''get_content_assets'', [''library_id'']),
      (''get_content_asset'', [''library_id'', ''content_id''])]"

subsection \<open>The router's entry point\<close>

text \<open>
  Modelled from the spec: the tool-call envelope \<open>{content, isError}\<close> of section 6
  (built in base-handler.ts, which is not under src/). An error envelope carries the
  message as text; a success envelope carries the dispatcher's data.
\<close>

datatype tool_content = TextContent string | DataContent jvalue

record ToolResponse =
  content :: "tool_content list"
  isError :: bool

text \<open>
  Modelled from the spec: \<open>canHandle\<close> of the base handler (base-handler.ts is not under
  src/), the membership test against the set of tool names the router owns.
\<close>

definition canHandle :: "DataAPIToolHandler \<Rightarrow> string \<Rightarrow> bool" where
  "canHandle h name \<longleftrightarrow> name \<in> toolNameSet h"

text \<open>
  Modelled from the spec: \<open>initialize\<close> of the base handler (base-handler.ts is not under
  src/); it runs \<open>onInitialize\<close>, once.
\<close>

definition initialize ::
  "(OCAPIConfig \<Rightarrow> string) \<Rightarrow> DataAPIToolHandler \<Rightarrow> DataAPIToolHandler" where
  "initialize buildOCAPIBaseUrl h =
     (if isInitialized h then h else (onInitialize buildOCAPIBaseUrl h)\<lparr>isInitialized := True\<rparr>)"

text \<open>
  Modelled from the spec: \<open>validateArgs\<close> of the base handler (base-handler.ts is not under
  src/): the first required field whose argument is missing, in a message that names it.
\<close>

definition validateArgs :: "jobject \<Rightarrow> string list \<Rightarrow> string option" where
  "validateArgs args fs =
     (case List.find (\<lambda>f. blank (get_prop args f)) fs of
        None \<Rightarrow> None
      | Some f \<Rightarrow> Some (f @ '' is required''))"

text \<open>
  Modelled from the spec: the text of a failure that the router surfaces (built in
  base-handler.ts, which is not under src/): the message of an \<open>Error\<close>, and for
  another thrown value its string coercion.
\<close>

fun error_message :: "thrown \<Rightarrow> string" where
  "error_message (ThrownError m) = m"
| "error_message (ThrownValue v) =
     (case String_js v of Inr s \<Rightarrow> s | Inl (ThrownError m) \<Rightarrow> m | Inl (ThrownValue w) \<Rightarrow> [])"

text \<open>Modelled from the spec: the error envelope, \<open>isError\<close> set and the message as text.\<close>

definition errorEnvelope :: "string \<Rightarrow> ToolResponse" where
  "errorEnvelope msg = \<lparr>content = [TextContent msg], isError = True\<rparr>"

text \<open>Modelled from the spec: the success envelope, the dispatcher's data as payload.\<close>

definition successEnvelope :: "jvalue \<Rightarrow> ToolResponse" where
  "successEnvelope d = \<lparr>content = [DataContent d], isError = False\<rparr>"

text \<open>
  Modelled from the spec: \<open>handle\<close> of the base handler (base-handler.ts is not under
  src/), section 4.4 of the specification, steps 1 to 5: a handler without a dispatcher
  answers with the error envelope of the message "Data API client not initialized...";
  then the required arguments are checked; then the builder and the dispatcher run, and
  a failure becomes the error envelope of its message, a success the envelope of the
  data. Timing and debug lines are left out. A name the router does not own is outside
  the contract; the repository's test expects the call to be rejected with
  "Unsupported tool", which is the \<open>Inl\<close> result.
\<close>

definition handle ::
  "(OCAPIConfig \<Rightarrow> string) \<Rightarrow> DataAPIToolHandler \<Rightarrow> transport \<Rightarrow> string \<Rightarrow> jobject
     \<Rightarrow> (thrown + ToolResponse) \<times> http_request list \<times> DataAPIToolHandler" where
  "handle buildOCAPIBaseUrl h tr name args =
     (if \<not> canHandle h name then (Inl (ThrownError (''Unsupported tool: '' @ name)), [], h)
      else
        (let h' = initialize buildOCAPIBaseUrl h
         in case dataAPIClient h' of
              None \<Rightarrow> (Inr (errorEnvelope not_initialized), [], h')
            | Some c \<Rightarrow>
                (case validateArgs args
                        (case map_of getToolConfig name of None \<Rightarrow> [] | Some fs \<Rightarrow> fs) of
                   Some msg \<Rightarrow> (Inr (errorEnvelope msg), [], h')
                 | None \<Rightarrow>
                     (case handler_executeEndpoint (Some c) (endpointLoader h') tr name args of
                        (Inl e, calls) \<Rightarrow> (Inr (errorEnvelope (error_message e)), calls, h')
                      | (Inr d, calls) \<Rightarrow> (Inr (successEnvelope d), calls, h')))))"

text \<open>The promotion search descriptor of the repository's tests, and the same as a GET.\<close>

definition search_promotions_endpoint :: Endpoint where
  "search_promotions_endpoint =
     \<lparr>toolName = ''search_promotions'', path = ''/promotions'',
      description = [], http_method = ''POST'',
      parameters =
        [\<lparr>param_name = ''site_id'', param_description = [],
          param_type = ''string'', required = True\<rparr>,
         \<lparr>param_name = ''campaign_id'', param_description = [],
          param_type = ''string'', required = False\<rparr>],
      defaultBody = Some [(''query'', JObj [(''match_all_query'', JObj [])])],
      apiType = ''ocapi'', requiresSiteId = None\<rparr>"

text \<open>
  The descriptor of the specification's classification example; one that declares a
  parameter named like a member of \<open>Object.prototype\<close>; and one that declares a
  parameter \<open>__proto__\<close>.
\<close>

definition classified_endpoint :: Endpoint where
  "classified_endpoint =
     \<lparr>toolName = ''get_a'', path = ''/a/{x}'', description = [], http_method = ''GET'',
      parameters =
        [\<lparr>param_name = ''x'', param_description = [], param_type = ''string'',
          required = True\<rparr>,
         \<lparr>param_name = ''y'', param_description = [], param_type = ''string'',
          required = False\<rparr>],
      defaultBody = None, apiType = ''ocapi'', requiresSiteId = None\<rparr>"

definition constructor_endpoint :: Endpoint where
  "constructor_endpoint =
     \<lparr>toolName = ''get_b'', path = ''/b'', description = [], http_method = ''GET'',
      parameters =
        [\<lparr>param_name = ''constructor'', param_description = [], param_type = ''string'',
          required = False\<rparr>],
      defaultBody = None, apiType = ''ocapi'', requiresSiteId = None\<rparr>"

definition proto_endpoint :: Endpoint where
  "proto_endpoint =
     \<lparr>toolName = ''get_c'', path = ''/c'', description = [], http_method = ''GET'',
      parameters =
        [\<lparr>param_name = ''__proto__'', param_description = [], param_type = ''string'',
          required = False\<rparr>],
      defaultBody = None, apiType = ''ocapi'', requiresSiteId = None\<rparr>"

definition demo_loader :: EndpointLoader where
  "demo_loader =
     new_EndpointLoader
       (Config (Some [get_catalogs_default, get_product_endpoint, search_promotions_endpoint,
                      classified_endpoint, constructor_endpoint, proto_endpoint]))"

definition get_promotions_loader :: EndpointLoader where
  "get_promotions_loader =
     new_EndpointLoader
       (Config (Some [search_promotions_endpoint\<lparr>http_method := ''GET''\<rparr>]))"

text \<open>A registry whose promotion search has the site in its path.\<close>

definition site_promotions_loader :: EndpointLoader where
  "site_promotions_loader =
     new_EndpointLoader
       (Config (Some [search_promotions_endpoint\<lparr>path := ''/sites/{site_id}/promotions''\<rparr>]))"

definition basic_auth_config :: SFCCConfig where
  "basic_auth_config =
     \<lparr>sf_hostname = Some ''dev01.example.com'', username = Some ''admin'',
      password = Some ''secret'', sf_clientId = None, sf_clientSecret = None,
      sf_siteId = None, shortCode = None, organizationId = None\<rparr>"

definition gated_handler :: DataAPIToolHandler where
  "gated_handler =
     new_DataAPIToolHandler
       \<lparr>config = basic_auth_config, capabilities = getCapabilities basic_auth_config\<rparr>
       demo_loader"

text \<open>A transport that answers every request with the URL it was given.\<close>

definition echo_transport :: transport where
  "echo_transport r = Inr (Data (JStr (req_url r)))"

section \<open>The registry: fallback and lookup\<close>

lemma find_app:
  "List.find P (xs @ ys) = (case List.find P xs of None \<Rightarrow> List.find P ys | Some x \<Rightarrow> Some x)"
  by (induction xs) auto

lemma map_of_fold_update:
  "map_of (fold (\<lambda>e m. AList.update (toolName e) e m) es m) n =
     (case List.find (\<lambda>e. toolName e = n) (rev es) of
        Some e \<Rightarrow> Some e
      | None \<Rightarrow> map_of m n)"
proof (induction es arbitrary: m)
  case Nil
  then show ?case by simp
next
  case (Cons e es)
  show ?case
    by (simp add: Cons.IH find_app update_conv' split: option.splits)
qed

lemma find_unique:
  "d \<in> set xs \<Longrightarrow> (\<forall>e \<in> set xs. f e = f d \<longrightarrow> e = d) \<Longrightarrow>
     List.find (\<lambda>e. f e = f d) xs = Some d"
  by (induction xs) auto

lemma find_rev_distinct:
  assumes "distinct (map toolName es)" and "d \<in> set es"
  shows "List.find (\<lambda>e. toolName e = toolName d) (rev es) = Some d"
proof -
  from assms(1) have "inj_on toolName (set es)"
    by (simp add: distinct_map)
  with assms(2) have "\<forall>e \<in> set (rev es). toolName e = toolName d \<longrightarrow> e = d"
    by (auto dest: inj_onD)
  with assms(2) show ?thesis
    by (intro find_unique) simp_all
qed

text \<open>
  C5, the code at an unreadable catalog: the load logs an error and only replaces the
  list of descriptors by the built-in set; the index by tool name stays empty. The
  fallback descriptor is listed by \<open>getEndpoints\<close> and \<open>getToolNames\<close>, while
  \<open>getEndpoint\<close> and \<open>hasEndpoint\<close> do not find it.
\<close>

theorem fallback_not_indexed:
  "getEndpoints (new_EndpointLoader (ReadFailure ''ENOENT'')) = getDefaultEndpoints
   \<and> getToolNames (new_EndpointLoader (ReadFailure ''ENOENT'')) = [''get_catalogs'']
   \<and> getEndpoint (new_EndpointLoader (ReadFailure ''ENOENT'')) ''get_catalogs'' = None
   \<and> \<not> hasEndpoint (new_EndpointLoader (ReadFailure ''ENOENT'')) ''get_catalogs''
   \<and> logger (new_EndpointLoader (ReadFailure ''ENOENT''))
       = [(LError, ''Failed to load endpoints: ENOENT'')]"
  by (simp add: new_EndpointLoader_def loadEndpoints_def getEndpoints_def getToolNames_def
      getEndpoint_def hasEndpoint_def getDefaultEndpoints_def get_catalogs_default_def)

text \<open>
  C6 as stated fails: a catalog with two descriptors of one tool name loads without any
  error, both stay in the list (the names are not pairwise distinct), and
  \<open>getEndpoint\<close> returns the second, not the first.
\<close>

theorem duplicate_last_wins:
  "getEndpoints (new_EndpointLoader (Config (Some [dup_first, dup_second]))) = [dup_first, dup_second]
   \<and> \<not> distinct (getToolNames (new_EndpointLoader (Config (Some [dup_first, dup_second]))))
   \<and> logger (new_EndpointLoader (Config (Some [dup_first, dup_second]))) = []
   \<and> getEndpoint (new_EndpointLoader (Config (Some [dup_first, dup_second]))) (toolName dup_first)
       = Some dup_second
   \<and> getEndpoint (new_EndpointLoader (Config (Some [dup_first, dup_second]))) (toolName dup_first)
       \<noteq> Some dup_first"
  by (simp add: new_EndpointLoader_def loadEndpoints_def getEndpoints_def getToolNames_def
      getEndpoint_def dup_first_def dup_second_def)

text \<open>
  C6 as amended: a successful load keeps the catalog's descriptors as they are, without
  a check for duplicates; \<open>getEndpoint\<close> returns the last loaded descriptor of a name;
  and when the catalog's tool names are pairwise distinct, \<open>getEndpoint\<close> returns every
  loaded descriptor under its own name.
\<close>

theorem getEndpoint_after_load:
  "getEndpoints (new_EndpointLoader (Config (Some es))) = es
   \<and> getEndpoint (new_EndpointLoader (Config (Some es))) n
       = List.find (\<lambda>e. toolName e = n) (rev es)
   \<and> (distinct (map toolName es) \<longrightarrow>
        distinct (getToolNames (new_EndpointLoader (Config (Some es))))
        \<and> (\<forall>d \<in> set es. getEndpoint (new_EndpointLoader (Config (Some es))) (toolName d) = Some d))"
proof -
  have m: "getEndpoint (new_EndpointLoader (Config (Some es))) k
             = List.find (\<lambda>e. toolName e = k) (rev es)" for k
    by (simp add: new_EndpointLoader_def loadEndpoints_def getEndpoint_def map_of_fold_update
        split: option.splits)
  have l: "getEndpoints (new_EndpointLoader (Config (Some es))) = es"
    by (simp add: new_EndpointLoader_def loadEndpoints_def getEndpoints_def)
  have n: "getToolNames (new_EndpointLoader (Config (Some es))) = map toolName es"
    by (simp add: new_EndpointLoader_def loadEndpoints_def getToolNames_def)
  show ?thesis
    using find_rev_distinct [of es] by (simp add: m l n)
qed

theorem getEndpoint_after_load_witness:
  "distinct (map toolName [get_catalogs_default, dup_second])
   \<and> dup_second \<in> set [get_catalogs_default, dup_second]
   \<and> getEndpoint (new_EndpointLoader (Config (Some [get_catalogs_default, dup_second])))
        (toolName dup_second) = Some dup_second"
  using getEndpoint_after_load [of "[get_catalogs_default, dup_second]" "toolName dup_second"]
  by (simp add: get_catalogs_default_def dup_second_def)


section \<open>Enumeration order\<close>

lemma set_entries: "set (entries xs) = set xs"
  by (auto simp: entries_def)

lemma map_of_filter_key:
  "(\<And>y. fst y = k \<Longrightarrow> P y) \<Longrightarrow> map_of (filter P xs) k = map_of xs k"
  by (induction xs) auto

lemma map_of_filter_other:
  "(\<And>y. fst y = k \<Longrightarrow> \<not> P y) \<Longrightarrow> map_of (filter P xs) k = None"
  by (induction xs) auto

lemma map_of_sort_key:
  "map_of (sort_key (\<lambda>kv. g (fst kv)) xs) k = map_of xs k"
proof -
  let ?f = "\<lambda>kv. g (fst kv)"
  have "map_of (sort_key ?f xs) k = map_of (filter (\<lambda>y. ?f y = g k) (sort_key ?f xs)) k"
    by (rule map_of_filter_key [symmetric]) simp
  also have "filter (\<lambda>y. ?f y = g k) (sort_key ?f xs) = filter (\<lambda>y. ?f y = g k) xs"
    by (rule sort_key_stable)
  also have "map_of (filter (\<lambda>y. ?f y = g k) xs) k = map_of xs k"
    by (rule map_of_filter_key) simp
  finally show ?thesis .
qed

lemma map_of_entries: "map_of (entries xs) k = map_of xs k"
proof (cases "is_index k")
  case True
  then have "map_of (filter (\<lambda>kv. \<not> is_index (fst kv)) xs) k = None"
    by (intro map_of_filter_other) simp
  moreover have "map_of (filter (\<lambda>kv. is_index (fst kv)) xs) k = map_of xs k"
    using True by (intro map_of_filter_key) simp
  ultimately show ?thesis
    by (simp add: entries_def map_add_def map_of_sort_key split: option.splits)
next
  case False
  then have "map_of (filter (\<lambda>kv. is_index (fst kv)) xs) k = None"
    by (intro map_of_filter_other) simp
  moreover have "map_of (filter (\<lambda>kv. \<not> is_index (fst kv)) xs) k = map_of xs k"
    using False by (intro map_of_filter_key) simp
  ultimately show ?thesis
    by (simp add: entries_def map_add_def map_of_sort_key split: option.splits)
qed

lemma entries_canonical:
  assumes "\<forall>kv \<in> set A. is_index (fst kv)"
    and "sorted (map (\<lambda>kv. index_value (fst kv)) A)"
    and "\<forall>kv \<in> set B. \<not> is_index (fst kv)"
  shows "entries (A @ B) = A @ B"
proof -
  have "filter (\<lambda>kv. is_index (fst kv)) (A @ B) = A"
    using assms(1,3) by (simp add: filter_id_conv filter_empty_conv)
  moreover have "filter (\<lambda>kv. \<not> is_index (fst kv)) (A @ B) = B"
    using assms(1,3) by (simp add: filter_id_conv filter_empty_conv)
  moreover have "sort_key (\<lambda>kv. index_value (fst kv)) A = A"
    using assms(2) by (rule sort_key_id_if_sorted)
  ultimately show ?thesis by (simp add: entries_def)
qed

lemma entries_no_index: "\<forall>k \<in> fst ` set xs. \<not> is_index k \<Longrightarrow> entries xs = xs"
  using entries_canonical [of "[]" xs] by simp

lemma entries_kept:
  assumes "\<And>kv. fst (g kv) = fst kv"
  shows "entries (map g (filter P (entries xs))) = map g (filter P (entries xs))"
proof -
  let ?i = "\<lambda>kv. index_value (fst kv)"
  let ?A = "sort_key ?i (filter (\<lambda>kv. is_index (fst kv)) xs)"
  let ?B = "filter (\<lambda>kv. \<not> is_index (fst kv)) xs"
  have "sorted (map ?i (filter P ?A))"
    by (simp add: sorted_filter)
  then have s: "sorted (map ?i (map g (filter P ?A)))"
    by (simp add: assms comp_def)
  have a: "\<forall>kv \<in> set (map g (filter P ?A)). is_index (fst kv)"
    by (auto simp: assms)
  have b: "\<forall>kv \<in> set (map g (filter P ?B)). \<not> is_index (fst kv)"
    by (auto simp: assms)
  from entries_canonical [OF a s b] show ?thesis
    by (simp add: entries_def)
qed

lemma update_fresh: "k \<notin> fst ` set al \<Longrightarrow> AList.update k v al = al @ [(k, v)]"
  by (induction al) auto

lemma set_prop_fresh:
  "k \<notin> fst ` set al \<Longrightarrow> k \<noteq> ''__proto__'' \<Longrightarrow> set_prop k v al = al @ [(k, v)]"
  by (simp add: set_prop_def update_fresh)

lemma join_elements_Inl: "join_elements xs = Inl e \<Longrightarrow> Inl e \<in> set xs"
  by (induction xs rule: join_elements.induct) (auto split: sum.splits)

lemma String_json_Error: "String_json v = Inl e \<Longrightarrow> \<exists>m. e = ThrownError m"
proof (induction v rule: String_json.induct)
  case (5 xs)
  from join_elements_Inl [OF 5(2) [simplified]]
  obtain x where "x \<in> set xs" and "x \<noteq> JNull" and "String_json x = Inl e"
    by (auto split: if_splits)
  with 5(1) show ?case by blast
qed (auto split: if_splits)

lemma String_js_Error: "String_js v = Inl e \<Longrightarrow> \<exists>m. e = ThrownError m"
  by (cases v) (auto dest: String_json_Error)

section \<open>The dispatcher: unknown names, outcomes, URLs\<close>

text \<open>
  C2: for a tool name that the registry does not hold, \<open>executeEndpoint\<close> returns
  \<open>{data: null, status: 400, success: false, error: "Unknown endpoint: <name>"}\<close> and
  hands no request to the transport.
\<close>

theorem unknown_endpoint_short_circuit:
  "getEndpoint (client_endpointLoader c) name = None \<Longrightarrow>
     executeEndpoint c tr name params =
       (Inr \<lparr>data = Data JNull, status = 400, success = False,
             error = Some (''Unknown endpoint: '' @ name)\<rparr>, [])"
  by (simp add: executeEndpoint_def failure_def)

theorem unknown_endpoint_short_circuit_witness:
  "getEndpoint (client_endpointLoader demo_client) ''get_everything'' = None
   \<and> executeEndpoint demo_client echo_transport ''get_everything'' no_params
     = (Inr \<lparr>data = Data JNull, status = 400, success = False,
             error = Some ''Unknown endpoint: get_everything''\<rparr>, [])"
  using unknown_endpoint_short_circuit
    [of demo_client "''get_everything''" echo_transport no_params]
  by (simp add: demo_client_def getEndpoint_def new_EndpointLoader_def loadEndpoints_def
      get_catalogs_default_def trace_endpoint_def get_product_endpoint_def)

lemma demo_lookup:
  "getEndpoint (client_endpointLoader demo_client) ''get_catalogs'' = Some get_catalogs_default"
  "getEndpoint (client_endpointLoader demo_client) ''trace_catalogs'' = Some trace_endpoint"
  "getEndpoint (client_endpointLoader demo_client) ''get_product'' = Some get_product_endpoint"
  by (simp_all add: demo_client_def getEndpoint_def new_EndpointLoader_def loadEndpoints_def
      get_catalogs_default_def trace_endpoint_def get_product_endpoint_def)

lemma collect_from_Error: "collect_from xs acc = Inl e \<Longrightarrow> \<exists>m. e = ThrownError m"
  by (induction xs acc rule: collect_from.induct)
    (auto split: if_splits sum.splits dest: String_js_Error)

lemma buildUrl_Error: "buildUrl ep params = Inl e \<Longrightarrow> \<exists>m. e = ThrownError m"
  by (auto simp: buildUrl_def Let_def collectQuery_def split: option.splits sum.splits
      dest: collect_from_Error)

text \<open>
  C4 as stated fails in two places: a thrown value that is no \<open>Error\<close> and cannot be
  coerced to a string makes the \<open>catch\<close> block itself throw, so the promise rejects;
  and with a query value that cannot be coerced the URL construction throws before the
  method is looked at, so an unrecognised method gives the error of the coercion.
\<close>

theorem uncoercible_throw_escapes:
  "executeEndpoint demo_client (\<lambda>r. Inl (ThrownValue (Data no_string))) ''get_catalogs'' no_params
     = (Inl (ThrownError ''Cannot convert object to primitive value''),
        [\<lparr>req_verb = ''GET'', req_url = ''/catalogs'', req_body = None\<rparr>])
   \<and> executeEndpoint demo_client echo_transport ''trace_catalogs''
        \<lparr>pathParams = None, queryParams = Some [(''a'', Data no_string)], body = None\<rparr>
     = (Inr \<lparr>data = Data JNull, status = 500, success = False,
             error = Some ''Cannot convert object to primitive value''\<rparr>, [])"
  by (simp add: executeEndpoint_def demo_lookup dispatch_def buildUrl_def Let_def no_params_def
      get_catalogs_default_def trace_endpoint_def catch_block_def no_string_def failure_def
      collectQuery_def entries_def is_index_def index_value_def)

text \<open>
  C4 as amended: for a known endpoint, \<open>executeEndpoint\<close> first builds the URL; when that
  throws (always an \<open>Error\<close>), the result is the status 500 response with its message
  and nothing is requested, whatever the method. Otherwise an unrecognised method gives
  the status 500 response \<open>"Unsupported HTTP method: <method>"\<close> and nothing is
  requested, and one of the five verbs makes exactly one request, with the built URL
  (and the built body for POST, PUT and PATCH, none for GET and DELETE): a payload gives
  \<open>{success: true, status: 200, data: payload}\<close>; a thrown \<open>Error\<close> gives
  \<open>{success: false, status: 500, error: message}\<close>; another thrown value gives the same
  with its string coercion as error, and only when that coercion throws does the
  promise reject, with what the coercion throws.
\<close>

theorem executeEndpoint_outcomes:
  assumes "getEndpoint (client_endpointLoader c) name = Some ep"
  shows "(\<forall>e. buildUrl ep params = Inl e \<longrightarrow>
            (\<exists>m. e = ThrownError m
               \<and> executeEndpoint c tr name params =
                   (Inr \<lparr>data = Data JNull, status = 500, success = False, error = Some m\<rparr>, [])))
       \<and> (\<forall>url. buildUrl ep params = Inr url \<longrightarrow>
            (http_method ep \<notin> {''GET'', ''POST'', ''PUT'', ''PATCH'', ''DELETE''} \<longrightarrow>
               executeEndpoint c tr name params =
                 (Inr \<lparr>data = Data JNull, status = 500, success = False,
                       error = Some (''Unsupported HTTP method: '' @ http_method ep)\<rparr>, []))
          \<and> (http_method ep \<in> {''GET'', ''POST'', ''PUT'', ''PATCH'', ''DELETE''} \<longrightarrow>
               (\<exists>req. snd (executeEndpoint c tr name params) = [req]
                  \<and> req_verb req = http_method ep \<and> req_url req = url
                  \<and> req_body req =
                      (if http_method ep \<in> {''POST'', ''PUT'', ''PATCH''}
                       then Some (buildRequestBody ep params) else None)
                  \<and> (\<forall>payload. tr req = Inr payload \<longrightarrow>
                        fst (executeEndpoint c tr name params) =
                          Inr \<lparr>data = payload, status = 200, success = True, error = None\<rparr>)
                  \<and> (\<forall>m. tr req = Inl (ThrownError m) \<longrightarrow>
                        fst (executeEndpoint c tr name params) =
                          Inr \<lparr>data = Data JNull, status = 500, success = False,
                               error = Some m\<rparr>)
                  \<and> (\<forall>v s. tr req = Inl (ThrownValue v) \<and> String_js v = Inr s \<longrightarrow>
                        fst (executeEndpoint c tr name params) =
                          Inr \<lparr>data = Data JNull, status = 500, success = False,
                               error = Some s\<rparr>)
                  \<and> (\<forall>v e. tr req = Inl (ThrownValue v) \<and> String_js v = Inl e \<longrightarrow>
                        fst (executeEndpoint c tr name params) = Inl e))))"
proof (intro conjI allI impI)
  fix e assume "buildUrl ep params = Inl e"
  moreover from this obtain m where "e = ThrownError m"
    using buildUrl_Error by blast
  ultimately show "\<exists>m. e = ThrownError m
               \<and> executeEndpoint c tr name params =
                   (Inr \<lparr>data = Data JNull, status = 500, success = False, error = Some m\<rparr>, [])"
    using assms by (simp add: executeEndpoint_def dispatch_def catch_block_def failure_def)
next
  fix url
  assume "buildUrl ep params = Inr url"
    and "http_method ep \<notin> {''GET'', ''POST'', ''PUT'', ''PATCH'', ''DELETE''}"
  then show "executeEndpoint c tr name params =
                 (Inr \<lparr>data = Data JNull, status = 500, success = False,
                       error = Some (''Unsupported HTTP method: '' @ http_method ep)\<rparr>, [])"
    using assms
    by (simp add: executeEndpoint_def dispatch_def Let_def catch_block_def failure_def)
next
  fix url
  assume u: "buildUrl ep params = Inr url"
    and v: "http_method ep \<in> {''GET'', ''POST'', ''PUT'', ''PATCH'', ''DELETE''}"
  let ?req = "\<lparr>req_verb = http_method ep, req_url = url,
                 req_body = (if http_method ep \<in> {''POST'', ''PUT'', ''PATCH''}
                             then Some (buildRequestBody ep params) else None)\<rparr>"
  have d: "dispatch tr ep params = (tr ?req, [?req])"
    using u v by (auto simp: dispatch_def Let_def)
  have "snd (executeEndpoint c tr name params) = [?req]"
    using assms d by (simp add: executeEndpoint_def split: sum.splits)
  moreover have "\<forall>payload. tr ?req = Inr payload \<longrightarrow>
                        fst (executeEndpoint c tr name params) =
                          Inr \<lparr>data = payload, status = 200, success = True, error = None\<rparr>"
    using assms d by (simp add: executeEndpoint_def)
  moreover have "\<forall>m. tr ?req = Inl (ThrownError m) \<longrightarrow>
                        fst (executeEndpoint c tr name params) =
                          Inr \<lparr>data = Data JNull, status = 500, success = False,
                               error = Some m\<rparr>"
    using assms d by (simp add: executeEndpoint_def catch_block_def failure_def)
  moreover have "\<forall>v s. tr ?req = Inl (ThrownValue v) \<and> String_js v = Inr s \<longrightarrow>
                        fst (executeEndpoint c tr name params) =
                          Inr \<lparr>data = Data JNull, status = 500, success = False,
                               error = Some s\<rparr>"
    using assms d by (simp add: executeEndpoint_def catch_block_def failure_def)
  moreover have "\<forall>v e. tr ?req = Inl (ThrownValue v) \<and> String_js v = Inl e \<longrightarrow>
                        fst (executeEndpoint c tr name params) = Inl e"
    using assms d by (simp add: executeEndpoint_def catch_block_def)
  ultimately show "\<exists>req. snd (executeEndpoint c tr name params) = [req]
                  \<and> req_verb req = http_method ep \<and> req_url req = url
                  \<and> req_body req =
                      (if http_method ep \<in> {''POST'', ''PUT'', ''PATCH''}
                       then Some (buildRequestBody ep params) else None)
                  \<and> (\<forall>payload. tr req = Inr payload \<longrightarrow>
                        fst (executeEndpoint c tr name params) =
                          Inr \<lparr>data = payload, status = 200, success = True, error = None\<rparr>)
                  \<and> (\<forall>m. tr req = Inl (ThrownError m) \<longrightarrow>
                        fst (executeEndpoint c tr name params) =
                          Inr \<lparr>data = Data JNull, status = 500, success = False,
                               error = Some m\<rparr>)
                  \<and> (\<forall>v s. tr req = Inl (ThrownValue v) \<and> String_js v = Inr s \<longrightarrow>
                        fst (executeEndpoint c tr name params) =
                          Inr \<lparr>data = Data JNull, status = 500, success = False,
                               error = Some s\<rparr>)
                  \<and> (\<forall>v e. tr req = Inl (ThrownValue v) \<and> String_js v = Inl e \<longrightarrow>
                        fst (executeEndpoint c tr name params) = Inl e)"
    by (intro exI [of _ ?req]) simp
qed

lemma demo_loader_lookup:
  "getEndpoint demo_loader ''get_catalogs'' = Some get_catalogs_default"
  "getEndpoint demo_loader ''get_product'' = Some get_product_endpoint"
  "getEndpoint demo_loader ''search_promotions'' = Some search_promotions_endpoint"
  "getEndpoint demo_loader ''get_a'' = Some classified_endpoint"
  "getEndpoint demo_loader ''get_b'' = Some constructor_endpoint"
  "getEndpoint demo_loader ''get_c'' = Some proto_endpoint"
  by (simp_all add: demo_loader_def getEndpoint_def new_EndpointLoader_def loadEndpoints_def
      get_catalogs_default_def get_product_endpoint_def search_promotions_endpoint_def
      classified_endpoint_def constructor_endpoint_def proto_endpoint_def)

theorem executeEndpoint_outcomes_witness:
  "getEndpoint (client_endpointLoader demo_client) ''get_catalogs'' = Some get_catalogs_default
   \<and> executeEndpoint demo_client echo_transport ''get_catalogs'' no_params
     = (Inr \<lparr>data = Data (JStr ''/catalogs''), status = 200, success = True, error = None\<rparr>,
        [\<lparr>req_verb = ''GET'', req_url = ''/catalogs'', req_body = None\<rparr>])
   \<and> executeEndpoint demo_client (\<lambda>r. Inl (ThrownError ''socket hang up'')) ''get_catalogs''
        no_params
     = (Inr \<lparr>data = Data JNull, status = 500, success = False,
             error = Some ''socket hang up''\<rparr>,
        [\<lparr>req_verb = ''GET'', req_url = ''/catalogs'', req_body = None\<rparr>])
   \<and> executeEndpoint demo_client (\<lambda>r. Inl (ThrownValue (Data (JStr ''boom'')))) ''get_catalogs''
        no_params
     = (Inr \<lparr>data = Data JNull, status = 500, success = False, error = Some ''boom''\<rparr>,
        [\<lparr>req_verb = ''GET'', req_url = ''/catalogs'', req_body = None\<rparr>])
   \<and> executeEndpoint demo_client (\<lambda>r. Inl (ThrownValue (Data (JNum ''404'')))) ''get_catalogs''
        no_params
     = (Inr \<lparr>data = Data JNull, status = 500, success = False, error = Some ''404''\<rparr>,
        [\<lparr>req_verb = ''GET'', req_url = ''/catalogs'', req_body = None\<rparr>])
   \<and> fst (executeEndpoint demo_client (\<lambda>r. Inl (ThrownValue (Data no_string))) ''get_catalogs''
        no_params)
     = Inl (ThrownError ''Cannot convert object to primitive value'')
   \<and> executeEndpoint demo_client echo_transport ''trace_catalogs'' no_params
     = (Inr \<lparr>data = Data JNull, status = 500, success = False,
             error = Some ''Unsupported HTTP method: TRACE''\<rparr>, [])
   \<and> executeEndpoint demo_client echo_transport ''get_catalogs''
        \<lparr>pathParams = None, queryParams = Some [(''a'', Data no_string)], body = None\<rparr>
     = (Inr \<lparr>data = Data JNull, status = 500, success = False,
             error = Some ''Cannot convert object to primitive value''\<rparr>, [])
   \<and> executeEndpoint (demo_client\<lparr>client_endpointLoader := demo_loader\<rparr>) echo_transport
        ''search_promotions''
        \<lparr>pathParams = None, queryParams = None, body = Some [(''count'', JNum ''5'')]\<rparr>
     = (Inr \<lparr>data = Data (JStr ''/promotions''), status = 200, success = True, error = None\<rparr>,
        [\<lparr>req_verb = ''POST'', req_url = ''/promotions'',
          req_body = Some [(''query'', JObj [(''match_all_query'', JObj [])]),
                           (''count'', JNum ''5'')]\<rparr>])"
  using executeEndpoint_outcomes
      [of demo_client "''get_catalogs''" get_catalogs_default no_params echo_transport]
    executeEndpoint_outcomes
      [of demo_client "''get_catalogs''" get_catalogs_default no_params
        "\<lambda>r. Inl (ThrownError ''socket hang up'')"]
    executeEndpoint_outcomes
      [of demo_client "''get_catalogs''" get_catalogs_default no_params
        "\<lambda>r. Inl (ThrownValue (Data (JStr ''boom'')))"]
    executeEndpoint_outcomes
      [of demo_client "''get_catalogs''" get_catalogs_default no_params
        "\<lambda>r. Inl (ThrownValue (Data (JNum ''404'')))"]
    executeEndpoint_outcomes
      [of demo_client "''get_catalogs''" get_catalogs_default no_params
        "\<lambda>r. Inl (ThrownValue (Data no_string))"]
    executeEndpoint_outcomes
      [of demo_client "''trace_catalogs''" trace_endpoint no_params echo_transport]
    executeEndpoint_outcomes
      [of demo_client "''get_catalogs''" get_catalogs_default
        "\<lparr>pathParams = None, queryParams = Some [(''a'', Data no_string)], body = None\<rparr>"
        echo_transport]
    executeEndpoint_outcomes
      [of "demo_client\<lparr>client_endpointLoader := demo_loader\<rparr>" "''search_promotions''"
        search_promotions_endpoint
        "\<lparr>pathParams = None, queryParams = None, body = Some [(''count'', JNum ''5'')]\<rparr>"
        echo_transport]
  by (simp add: executeEndpoint_def demo_lookup demo_loader_lookup dispatch_def buildUrl_def
      Let_def no_params_def get_catalogs_default_def trace_endpoint_def catch_block_def
      no_string_def failure_def collectQuery_def entries_def is_index_def index_value_def
      echo_transport_def search_promotions_endpoint_def buildRequestBody_def assign_def
      set_prop_def)

subsection \<open>The query string\<close>

lemma String_json_message:
  "String_json v = Inl e \<Longrightarrow> e = ThrownError ''Cannot convert object to primitive value''"
proof (induction v rule: String_json.induct)
  case (5 xs)
  from join_elements_Inl [OF 5(2) [simplified]]
  obtain x where "x \<in> set xs" and "x \<noteq> JNull" and "String_json x = Inl e"
    by (auto split: if_splits)
  with 5(1) show ?case by blast
qed (auto split: if_splits)

lemma String_js_message:
  "String_js v = Inl e \<Longrightarrow> e = ThrownError ''Cannot convert object to primitive value''"
  by (cases v) (auto dest: String_json_message)

lemma distinct_entries: "distinct (map fst xs) \<Longrightarrow> distinct (map fst (entries xs))"
proof -
  assume "distinct (map fst xs)"
  then have d: "distinct xs" and i: "inj_on fst (set xs)"
    by (simp_all add: distinct_map)
  from d have "distinct (entries xs)"
    by (auto simp: entries_def)
  with i show ?thesis
    by (simp add: distinct_map set_entries)
qed

lemma collect_from_ok:
  "distinct (map fst xs) \<Longrightarrow> fst ` set acc \<inter> fst ` set xs = {} \<Longrightarrow>
   \<forall>kv \<in> set xs. \<not> blank (snd kv) \<longrightarrow> (\<exists>s. String_js (snd kv) = Inr s) \<Longrightarrow>
     collect_from xs acc =
       Inr (acc @ map (\<lambda>kv. (fst kv, coerced (snd kv)))
                    (filter (\<lambda>kv. \<not> blank (snd kv))
                       (filter (\<lambda>kv. fst kv \<noteq> ''__proto__'') xs)))"
proof (induction xs arbitrary: acc)
  case Nil
  then show ?case by simp
next
  case (Cons kv xs)
  obtain k v where kv: "kv = (k, v)" by (cases kv)
  from Cons.prems kv have fresh: "k \<notin> fst ` set acc" by auto
  show ?case
  proof (cases "blank v")
    case True
    with Cons kv show ?thesis by auto
  next
    case False
    with Cons.prems kv obtain s where s: "String_js v = Inr s" by auto
    then have c: "coerced v = s" by (simp add: coerced_def)
    show ?thesis
    proof (cases "k = ''__proto__''")
      case True
      with fresh have "set_prop k s acc = acc"
        by (simp add: set_prop_def)
      with Cons kv False s True show ?thesis by auto
    next
      case n: False
      with fresh have sp: "set_prop k s acc = acc @ [(k, s)]"
        by (simp add: set_prop_fresh)
      from Cons.prems kv have "fst ` set (acc @ [(k, s)]) \<inter> fst ` set xs = {}"
        by (auto simp: rev_image_eqI)
      with Cons.IH [of "acc @ [(k, s)]"] Cons.prems kv False s sp n c
      show ?thesis by simp
    qed
  qed
qed

lemma collect_from_throws:
  "\<exists>kv \<in> set xs. \<not> blank (snd kv) \<and> (\<exists>e. String_js (snd kv) = Inl e) \<Longrightarrow>
     \<exists>e. collect_from xs acc = Inl e"
  by (induction xs acc rule: collect_from.induct) (auto split: sum.splits)

lemma collect_from_message:
  "collect_from xs acc = Inl e \<Longrightarrow> e = ThrownError ''Cannot convert object to primitive value''"
  by (induction xs acc rule: collect_from.induct)
    (auto split: if_splits sum.splits dest: String_js_message)

lemma intercalate_nonempty:
  "xs \<noteq> [] \<Longrightarrow> \<forall>x \<in> set xs. x \<noteq> [] \<Longrightarrow> intercalate sep xs \<noteq> []"
  by (induction sep xs rule: intercalate.induct) auto

lemma spec_query_unfold:
  "spec_query qp =
     (if filter (\<lambda>kv. \<not> blank (snd kv)) qp = [] then []
      else ''?'' @ intercalate ''&''
             (map (\<lambda>kv. encodeURIComponent (fst kv) @ ''='' @ encodeURIComponent (coerced (snd kv)))
                (filter (\<lambda>kv. \<not> blank (snd kv)) qp)))"
  by (simp add: spec_query_def Let_def case_prod_unfold)

text \<open>
  C7 as stated fails in three places: the entries are not taken in insertion order when
  a key is an array index; a value that is an object with an own \<open>toString\<close> property
  makes the construction throw; and an entry with the own key \<open>__proto__\<close> is never
  written, whatever its value.
\<close>

theorem query_order_by_index:
  "buildUrl get_catalogs_default
     \<lparr>pathParams = None,
      queryParams = Some [(''b'', Data (JStr ''x'')), (''10'', Data (JStr ''y'')),
                          (''a'', Data (JStr ''z'')), (''2'', Data (JStr ''w''))],
      body = None\<rparr> = Inr ''/catalogs?2=w&10=y&b=x&a=z''
   \<and> buildUrl get_catalogs_default
       \<lparr>pathParams = None, queryParams = Some [(''a'', Data no_string)], body = None\<rparr>
     = Inl (ThrownError ''Cannot convert object to primitive value'')
   \<and> buildUrl get_catalogs_default
       \<lparr>pathParams = None,
        queryParams = Some [(''__proto__'', Data (JStr ''p'')), (''a'', Data (JStr ''z''))],
        body = None\<rparr> = Inr ''/catalogs?a=z''"
  by (simp add: buildUrl_def Let_def collectQuery_def entries_def is_index_def index_value_def
      set_prop_def get_catalogs_default_def encodeURIComponent_def unreserved_def no_string_def)

text \<open>
  C7 as amended: the query string is built from the entries of \<open>queryParams\<close> in the
  order of \<open>Object.entries\<close> (keys that are array indices first, ascending, then the
  others in insertion order; so in insertion order when no key is an array index),
  without the entries whose value is \<open>undefined\<close>, \<open>null\<close> or the empty string and
  without an entry whose key is \<open>__proto__\<close>; key and string-coerced value are
  percent-encoded and written \<open>key=value\<close>, the pairs are joined with an ampersand, and
  the question mark is only written when a pair is left. This holds when every value
  that is not skipped for being blank can be coerced to a string; when one cannot, the
  construction throws the \<open>TypeError\<close> of the coercion. (The keys of an object are
  pairwise distinct; a missing \<open>queryParams\<close> is the empty object.)
\<close>

theorem query_string_construction:
  assumes "qp = (case queryParams params of None \<Rightarrow> [] | Some q \<Rightarrow> q)"
    and "distinct (map fst qp)"
  shows "((\<forall>kv \<in> set qp. \<not> blank (snd kv) \<longrightarrow> (\<exists>s. String_js (snd kv) = Inr s)) \<longrightarrow>
            buildUrl ep params =
              Inr ((case pathParams params of
                      None \<Rightarrow> path ep
                    | Some pp \<Rightarrow> substitutePath (path ep) (entries pp))
                   @ spec_query (filter (\<lambda>kv. fst kv \<noteq> ''__proto__'') (entries qp)))
            \<and> ((\<forall>k \<in> set (map fst qp). \<not> is_index k) \<longrightarrow>
                 buildUrl ep params =
                   Inr ((case pathParams params of
                           None \<Rightarrow> path ep
                         | Some pp \<Rightarrow> substitutePath (path ep) (entries pp))
                        @ spec_query (filter (\<lambda>kv. fst kv \<noteq> ''__proto__'') qp))))
       \<and> ((\<exists>kv \<in> set qp. \<not> blank (snd kv) \<and> (\<exists>e. String_js (snd kv) = Inl e)) \<longrightarrow>
            buildUrl ep params = Inl (ThrownError ''Cannot convert object to primitive value''))"
proof (intro conjI impI)
  let ?P = "case pathParams params of
              None \<Rightarrow> path ep
            | Some pp \<Rightarrow> substitutePath (path ep) (entries pp)"
  have c: "(case queryParams params of None \<Rightarrow> Inr [] | Some q \<Rightarrow> collectQuery q)
             = collectQuery qp"
    by (simp add: assms(1) collectQuery_def entries_def split: option.splits)
  {
    assume ok: "\<forall>kv \<in> set qp. \<not> blank (snd kv) \<longrightarrow> (\<exists>s. String_js (snd kv) = Inr s)"
    let ?kept = "filter (\<lambda>kv. \<not> blank (snd kv))
                   (filter (\<lambda>kv. fst kv \<noteq> ''__proto__'') (entries qp))"
    let ?g = "\<lambda>kv :: string \<times> jvalue. (fst kv, coerced (snd kv))"
    let ?qs = "map ?g ?kept"
    let ?pairs = "map (\<lambda>kv. encodeURIComponent (fst kv) @ ''='' @ encodeURIComponent (coerced (snd kv)))
                    ?kept"
    have "collect_from (entries qp) [] = Inr ([] @ ?qs)"
      using ok by (intro collect_from_ok distinct_entries assms(2)) (simp_all add: set_entries)
    then have cq: "collectQuery qp = Inr ?qs"
      by (simp add: collectQuery_def)
    have k: "?kept = filter (\<lambda>kv. \<not> blank (snd kv) \<and> fst kv \<noteq> ''__proto__'') (entries qp)"
      by (simp add: conj_commute)
    have e: "entries ?qs = ?qs"
      unfolding k by (rule entries_kept) simp
    have q: "map (\<lambda>(key, value). encodeURIComponent key @ ''='' @ encodeURIComponent value)
               (entries ?qs) = ?pairs"
      unfolding e by (simp add: case_prod_unfold comp_def)
    have ne: "?kept \<noteq> [] \<Longrightarrow> intercalate ''&'' ?pairs \<noteq> []"
      by (rule intercalate_nonempty) auto
    show main: "buildUrl ep params =
            Inr (?P @ spec_query (filter (\<lambda>kv. fst kv \<noteq> ''__proto__'') (entries qp)))"
    proof (cases "?kept = []")
      case True
      then have "spec_query (filter (\<lambda>kv. fst kv \<noteq> ''__proto__'') (entries qp)) = []"
        by (simp add: spec_query_unfold)
      moreover have "buildUrl ep params = Inr ?P"
        unfolding buildUrl_def Let_def c cq using True q by simp
      ultimately show ?thesis by simp
    next
      case False
      then have "spec_query (filter (\<lambda>kv. fst kv \<noteq> ''__proto__'') (entries qp))
                   = ''?'' @ intercalate ''&'' ?pairs"
        by (simp add: spec_query_unfold)
      moreover have "buildUrl ep params = Inr (?P @ ''?'' @ intercalate ''&'' ?pairs)"
        unfolding buildUrl_def Let_def c cq using ne [OF False] q by simp
      ultimately show ?thesis by simp
    qed
    {
      assume "\<forall>k \<in> set (map fst qp). \<not> is_index k"
      then have "entries qp = qp"
        by (intro entries_no_index) simp
      with main show "buildUrl ep params =
            Inr (?P @ spec_query (filter (\<lambda>kv. fst kv \<noteq> ''__proto__'') qp))"
        by simp
    }
  }
  {
    assume "\<exists>kv \<in> set qp. \<not> blank (snd kv) \<and> (\<exists>e. String_js (snd kv) = Inl e)"
    then have "\<exists>kv \<in> set (entries qp). \<not> blank (snd kv) \<and> (\<exists>e. String_js (snd kv) = Inl e)"
      by (simp add: set_entries)
    from collect_from_throws [OF this, of "[]"]
    obtain e where e: "collect_from (entries qp) [] = Inl e" by blast
    from collect_from_message [OF e] e
    have "collectQuery qp = Inl (ThrownError ''Cannot convert object to primitive value'')"
      by (simp add: collectQuery_def)
    then show "buildUrl ep params
                 = Inl (ThrownError ''Cannot convert object to primitive value'')"
      unfolding buildUrl_def Let_def c by simp
  }
qed

theorem query_string_construction_witness:
  "distinct (map fst [(''count'', Data (JNum ''10'')), (''empty'', Data (JStr [])),
                      (''nullish'', Data JNull)])
   \<and> buildUrl get_catalogs_default
       \<lparr>pathParams = None,
        queryParams = Some [(''count'', Data (JNum ''10'')), (''empty'', Data (JStr [])),
                            (''nullish'', Data JNull)],
        body = None\<rparr> = Inr ''/catalogs?count=10''
   \<and> buildUrl get_catalogs_default
       \<lparr>pathParams = None,
        queryParams = Some [(''a b'', Data (JStr ''x&y'')), (''u'', JUndefined),
                            (''on'', Data (JBool True)), (''ids'', Data (JArr [JNum ''1'', JNum ''2'']))],
        body = None\<rparr> = Inr ''/catalogs?a%20b=x%26y&on=true&ids=1%2C2''
   \<and> buildUrl get_catalogs_default
       \<lparr>pathParams = None,
        queryParams = Some [(''count'', Data (JNum ''10'')), (''bad'', Data no_string)],
        body = None\<rparr> = Inl (ThrownError ''Cannot convert object to primitive value'')"
  using query_string_construction
    [of "[(''count'', Data (JNum ''10'')), (''empty'', Data (JStr [])), (''nullish'', Data JNull)]"
        "\<lparr>pathParams = None,
          queryParams = Some [(''count'', Data (JNum ''10'')), (''empty'', Data (JStr [])),
                              (''nullish'', Data JNull)],
          body = None\<rparr>"
        get_catalogs_default]
    query_string_construction
    [of "[(''a b'', Data (JStr ''x&y'')), (''u'', JUndefined),
          (''on'', Data (JBool True)), (''ids'', Data (JArr [JNum ''1'', JNum ''2'']))]"
        "\<lparr>pathParams = None,
          queryParams = Some [(''a b'', Data (JStr ''x&y'')), (''u'', JUndefined),
                              (''on'', Data (JBool True)),
                              (''ids'', Data (JArr [JNum ''1'', JNum ''2'']))],
          body = None\<rparr>"
        get_catalogs_default]
    query_string_construction
    [of "[(''count'', Data (JNum ''10'')), (''bad'', Data no_string)]"
        "\<lparr>pathParams = None,
          queryParams = Some [(''count'', Data (JNum ''10'')), (''bad'', Data no_string)],
          body = None\<rparr>"
        get_catalogs_default]
  by (simp add: get_catalogs_default_def encodeURIComponent_def unreserved_def no_string_def
      spec_query_def coerced_def is_index_def index_value_def entries_def Let_def pct_def
      hexdigit_def)

subsection \<open>The path\<close>

lemma replace_first_skip:
  "c0 \<notin> set s \<Longrightarrow> replace_first (c0 # pat) rep (s @ r) = s @ replace_first (c0 # pat) rep r"
  by (induction s) auto

lemma startsWith_self: "startsWith (p @ r) p"
  by (induction p) auto

lemma startsWith_name:
  "CHR ''}'' \<notin> set n \<Longrightarrow> CHR ''}'' \<notin> set k \<Longrightarrow>
     startsWith (n @ CHR ''}'' # r) (k @ [CHR ''}'']) \<longleftrightarrow> n = k"
proof (induction n arbitrary: k)
  case Nil
  then show ?case by (cases k) auto
next
  case (Cons a n)
  then show ?case by (cases k) auto
qed

lemma replace_first_render:
  assumes "wf_template ts" and "CHR ''}'' \<notin> set k"
  shows "replace_first (placeholder k) rep (render ts) = render (subst1 k rep ts)"
  using assms(1)
proof (induction ts)
  case Nil
  then show ?case by (simp add: render_def placeholder_def)
next
  case (Cons t ts)
  then have wf: "wf_seg t" and wfs: "wf_template ts"
    by (simp_all add: wf_template_def)
  note IH = Cons.IH [OF wfs]
  show ?case
  proof (cases t)
    case (Lit s)
    with wf have "CHR ''{'' \<notin> set s" by simp
    then have "replace_first (CHR ''{'' # k @ ''}'') rep (s @ render ts)
                 = s @ replace_first (CHR ''{'' # k @ ''}'') rep (render ts)"
      by (rule replace_first_skip)
    with IH Lit show ?thesis
      by (simp add: render_def placeholder_def)
  next
    case (Hole n)
    with wf have n1: "CHR ''{'' \<notin> set n" and n2: "CHR ''}'' \<notin> set n" by simp_all
    show ?thesis
    proof (cases "n = k")
      case True
      have "startsWith (placeholder k @ render ts) (placeholder k)"
        by (rule startsWith_self)
      then show ?thesis
        using Hole True by (simp add: render_def placeholder_def)
    next
      case False
      from n2 assms(2) False
      have nomatch: "\<not> startsWith (n @ CHR ''}'' # render ts) (k @ [CHR ''}''])"
        by (simp add: startsWith_name)
      from n1 have "CHR ''{'' \<notin> set (n @ ''}'')" by simp
      then have "replace_first (CHR ''{'' # k @ ''}'') rep ((n @ ''}'') @ render ts)
                   = (n @ ''}'') @ replace_first (CHR ''{'' # k @ ''}'') rep (render ts)"
        by (rule replace_first_skip)
      with IH nomatch Hole False show ?thesis
        by (simp add: render_def placeholder_def)
    qed
  qed
qed

lemma hexdigit_in: "n < 16 \<Longrightarrow> hexdigit n \<in> pct_alphabet"
  unfolding hexdigit_def pct_alphabet_def
  by (rule set_rev_mp [OF nth_mem]) auto

lemma of_char_bound: "(of_char c :: nat) < 256"
  by (cases c) simp

lemma pct_chars: "set (pct c) \<subseteq> pct_alphabet"
proof -
  have "(of_char c :: nat) div 16 < 16" using of_char_bound [of c] by presburger
  moreover have "(of_char c :: nat) mod 16 < 16" by simp
  moreover have "CHR ''%'' \<in> pct_alphabet" by (simp add: pct_alphabet_def)
  ultimately show ?thesis
    using hexdigit_in [of "of_char c div 16"] hexdigit_in [of "of_char c mod 16"]
    by (simp add: pct_def)
qed

lemma encode_chars:
  "x \<in> set (encodeURIComponent s) \<Longrightarrow> unreserved x \<or> x \<in> pct_alphabet"
proof (induction s)
  case Nil
  then show ?case by (simp add: encodeURIComponent_def)
next
  case (Cons c s)
  have step: "encodeURIComponent (c # s) = (if unreserved c then [c] else pct c) @ encodeURIComponent s"
    by (simp add: encodeURIComponent_def)
  show ?case
  proof (cases "x \<in> set (encodeURIComponent s)")
    case True
    then show ?thesis by (rule Cons.IH)
  next
    case False
    with Cons.prems step have mem: "x \<in> set (if unreserved c then [c] else pct c)" by simp
    show ?thesis
    proof (cases "unreserved c")
      case True
      with mem have "x = c" by simp
      with True show ?thesis by simp
    next
      case False
      with mem have "x \<in> set (pct c)" by simp
      with pct_chars show ?thesis by blast
    qed
  qed
qed

lemma encode_no_brace: "CHR ''{'' \<notin> set (encodeURIComponent s)"
  using encode_chars [of "CHR ''{''" s] by (auto simp: unreserved_def pct_alphabet_def)

lemma encode_no_dollar: "CHR ''$'' \<notin> set (encodeURIComponent s)"
  using encode_chars [of "CHR ''$''" s] by (auto simp: unreserved_def pct_alphabet_def)

lemma wf_subst1:
  "wf_template ts \<Longrightarrow> CHR ''{'' \<notin> set r \<Longrightarrow> wf_template (subst1 k r ts)"
  by (induction k r ts rule: subst1.induct) (auto simp: wf_template_def)

lemma substitutePath_render:
  "wf_template ts \<Longrightarrow> \<forall>k \<in> fst ` set pp. CHR ''}'' \<notin> set k \<Longrightarrow>
     substitutePath (render ts) pp
       = render (fold (\<lambda>(k, v). subst1 k (encodeURIComponent v)) pp ts)"
proof (induction pp arbitrary: ts)
  case Nil
  then show ?case by (simp add: substitutePath_def)
next
  case (Cons kv pp)
  obtain k v where kv: "kv = (k, v)" by (cases kv)
  from Cons.prems kv have k: "CHR ''}'' \<notin> set k" by simp
  have wf': "wf_template (subst1 k (encodeURIComponent v) ts)"
    using Cons.prems(1) encode_no_brace by (rule wf_subst1)
  from Cons.prems have rest: "\<forall>k \<in> fst ` set pp. CHR ''}'' \<notin> set k" by simp
  have "substitutePath (render ts) (kv # pp)
          = substitutePath (replace_first (placeholder k) (encodeURIComponent v) (render ts)) pp"
    by (simp add: substitutePath_def kv)
  also have "\<dots> = substitutePath (render (subst1 k (encodeURIComponent v) ts)) pp"
    by (simp add: replace_first_render [OF Cons.prems(1) k])
  also have "\<dots> = render (fold (\<lambda>(k, v). subst1 k (encodeURIComponent v)) pp
                         (subst1 k (encodeURIComponent v) ts))"
    by (rule Cons.IH [OF wf' rest])
  finally show ?case by (simp add: kv)
qed

lemma holes_subst1: "set (holes (subst1 k r ts)) \<subseteq> set (holes ts)"
  by (induction k r ts rule: subst1.induct) auto

lemma distinct_holes_subst1: "distinct (holes ts) \<Longrightarrow> distinct (holes (subst1 k r ts))"
  using holes_subst1 by (induction k r ts rule: subst1.induct) (auto simp: subset_iff)

lemma fill_other:
  "k \<notin> set (holes ts) \<Longrightarrow> map (fill_seg ((k, v) # pp)) ts = map (fill_seg pp) ts"
  by (induction ts rule: holes.induct) auto

lemma spec_path_step:
  "distinct (holes ts) \<Longrightarrow>
     spec_path pp (subst1 k (encodeURIComponent v) ts) = spec_path ((k, v) # pp) ts"
proof (induction ts rule: holes.induct)
  case 1
  then show ?case by (simp add: spec_path_def)
next
  case (2 s ts)
  then show ?case by (simp add: spec_path_def)
next
  case (3 n ts)
  show ?case
  proof (cases "n = k")
    case True
    with 3 have "k \<notin> set (holes ts)" by simp
    then show ?thesis using True by (simp add: spec_path_def fill_other)
  next
    case False
    with 3 show ?thesis by (simp add: spec_path_def)
  qed
qed

lemma fold_subst1_spec:
  "distinct (holes ts) \<Longrightarrow>
     render (fold (\<lambda>(k, v). subst1 k (encodeURIComponent v)) pp ts) = spec_path pp ts"
proof (induction pp arbitrary: ts)
  case Nil
  have "render ts = spec_path [] ts"
    by (induction ts rule: holes.induct) (simp_all add: render_def spec_path_def)
  then show ?case by simp
next
  case (Cons kv pp)
  obtain k v where kv: "kv = (k, v)" by (cases kv)
  have "render (fold (\<lambda>(k, v). subst1 k (encodeURIComponent v)) (kv # pp) ts)
          = spec_path pp (subst1 k (encodeURIComponent v) ts)"
    using Cons.IH [OF distinct_holes_subst1 [OF Cons.prems]] by (simp add: kv)
  also have "\<dots> = spec_path ((k, v) # pp) ts"
    by (rule spec_path_step [OF Cons.prems])
  finally show ?case by (simp add: kv)
qed


lemma spec_path_entries: "spec_path (entries pp) ts = spec_path pp ts"
proof -
  have "fill_seg (entries pp) t = fill_seg pp t" for t
    by (cases t) (simp_all add: map_of_entries)
  then have "fill_seg (entries pp) = fill_seg pp" by (rule ext)
  then show ?thesis by (simp add: spec_path_def)
qed

text \<open>
  C8 as stated fails when a placeholder occurs twice: \<open>replace\<close> with a string pattern
  only replaces the first occurrence, so the second \<open>{x}\<close> stays in the URL although
  \<open>pathParams\<close> has an entry for it.
\<close>

theorem repeated_placeholder_kept:
  "buildUrl repeated_endpoint
     \<lparr>pathParams = Some [(''x'', ''v w'')], queryParams = None, body = None\<rparr>
     = Inr ''/a/v%20w/b/{x}''
   \<and> map_of [(''x'', ''v w'')] ''x'' = Some ''v w''
   \<and> path repeated_endpoint = render [Lit ''/a/'', Hole ''x'', Lit ''/b/'', Hole ''x'']
   \<and> spec_path [(''x'', ''v w'')] [Lit ''/a/'', Hole ''x'', Lit ''/b/'', Hole ''x'']
       = ''/a/v%20w/b/v%20w''"
  by (simp add: buildUrl_def substitutePath_def repeated_endpoint_def placeholder_def
      encodeURIComponent_def unreserved_def pct_def hexdigit_def render_def spec_path_def
      entries_def is_index_def)

text \<open>
  C8 as amended: for a path that is a well-formed template (and parameter names without
  a closing brace), every entry of \<open>pathParams\<close> replaces the first placeholder of its
  name by the percent-encoded value, and the query part follows (or the construction
  throws what the query part throws). When every placeholder occurs once, this is the
  template in which every placeholder that has an entry in \<open>pathParams\<close> is replaced by
  the percent-encoded value and every other placeholder is left as it is.
\<close>

theorem path_construction:
  assumes "path ep = render ts" and "wf_template ts"
    and "pp = (case pathParams params of None \<Rightarrow> [] | Some p \<Rightarrow> p)"
    and "\<forall>k \<in> fst ` set pp. CHR ''}'' \<notin> set k"
  shows "buildUrl ep params =
           map_sum id
             (\<lambda>q. render (fold (\<lambda>(k, v). subst1 k (encodeURIComponent v)) (entries pp) ts) @ q)
             (buildUrl (ep\<lparr>path := []\<rparr>) (params\<lparr>pathParams := None\<rparr>))
         \<and> (distinct (holes ts) \<longrightarrow>
              buildUrl ep params =
                map_sum id (\<lambda>q. spec_path pp ts @ q)
                  (buildUrl (ep\<lparr>path := []\<rparr>) (params\<lparr>pathParams := None\<rparr>)))"
proof -
  have "\<forall>k \<in> fst ` set (entries pp). CHR ''}'' \<notin> set k"
    using assms(4) by (simp add: set_entries)
  with assms(2)
  have r: "substitutePath (render ts) (entries pp)
             = render (fold (\<lambda>(k, v). subst1 k (encodeURIComponent v)) (entries pp) ts)"
    by (rule substitutePath_render)
  have "(case pathParams params of None \<Rightarrow> path ep
          | Some p \<Rightarrow> substitutePath (path ep) (entries p))
          = substitutePath (render ts) (entries pp)"
    by (simp add: assms(1,3) substitutePath_def entries_def split: option.splits)
  with r have "buildUrl ep params =
           map_sum id
             (\<lambda>q. render (fold (\<lambda>(k, v). subst1 k (encodeURIComponent v)) (entries pp) ts) @ q)
             (buildUrl (ep\<lparr>path := []\<rparr>) (params\<lparr>pathParams := None\<rparr>))"
    by (simp add: buildUrl_def Let_def split: sum.splits)
  then show ?thesis
    by (simp add: fold_subst1_spec spec_path_entries)
qed

theorem path_construction_witness:
  "path get_product_endpoint
     = render [Lit ''/sites/'', Hole ''site_id'', Lit ''/products/'', Hole ''product_id'']
   \<and> wf_template [Lit ''/sites/'', Hole ''site_id'', Lit ''/products/'', Hole ''product_id'']
   \<and> distinct (holes [Lit ''/sites/'', Hole ''site_id'', Lit ''/products/'', Hole ''product_id''])
   \<and> buildUrl get_product_endpoint
       \<lparr>pathParams = Some [(''product_id'', ''product with spaces'')], queryParams = None,
        body = None\<rparr>
       = Inr ''/sites/{site_id}/products/product%20with%20spaces''"
  using path_construction
    [of get_product_endpoint
        "[Lit ''/sites/'', Hole ''site_id'', Lit ''/products/'', Hole ''product_id'']"
        "[(''product_id'', ''product with spaces'')]"
        "\<lparr>pathParams = Some [(''product_id'', ''product with spaces'')], queryParams = None,
          body = None\<rparr>"]
  by (simp add: get_product_endpoint_def render_def wf_template_def placeholder_def
      spec_path_def buildUrl_def encodeURIComponent_def unreserved_def pct_def hexdigit_def
      entries_def is_index_def)

subsection \<open>The site selector\<close>

lemma setSiteId_frame:
  "getSiteId (setSiteId s c) = Some s
   \<and> baseUrl (setSiteId s c) = baseUrl c
   \<and> client_endpointLoader (setSiteId s c) = client_endpointLoader c
   \<and> executeEndpoint (setSiteId s c) tr name params = executeEndpoint c tr name params"
  by (simp add: executeEndpoint_def setSiteId_def getSiteId_def)

text \<open>
  C10, the code after \<open>setSiteId\<close>: the value is stored and \<open>getSiteId\<close> returns it, but
  no request reads it. A site-specific call without a \<open>site_id\<close> of its own issues the
  same single request whether \<open>SiteA\<close> or \<open>SiteB\<close> is stored, with the placeholder
  \<open>{site_id}\<close> still in the URL.
\<close>

theorem site_selector_no_override:
  "getSiteId (setSiteId ''SiteA'' demo_client) = Some ''SiteA''
   \<and> getSiteId (setSiteId ''SiteB'' demo_client) = Some ''SiteB''
   \<and> snd (executeEndpoint (setSiteId ''SiteA'' demo_client) echo_transport ''get_product''
        \<lparr>pathParams = Some [(''product_id'', ''P1'')], queryParams = None, body = None\<rparr>)
     = [\<lparr>req_verb = ''GET'', req_url = ''/sites/{site_id}/products/P1'', req_body = None\<rparr>]
   \<and> snd (executeEndpoint (setSiteId ''SiteB'' demo_client) echo_transport ''get_product''
        \<lparr>pathParams = Some [(''product_id'', ''P1'')], queryParams = None, body = None\<rparr>)
     = [\<lparr>req_verb = ''GET'', req_url = ''/sites/{site_id}/products/P1'', req_body = None\<rparr>]"
  by (simp add: executeEndpoint_def setSiteId_def getSiteId_def demo_lookup dispatch_def
      Let_def echo_transport_def get_product_endpoint_def buildUrl_def substitutePath_def
      placeholder_def encodeURIComponent_def unreserved_def entries_def is_index_def)

section \<open>The request builder\<close>

lemma map_of_set_prop:
  "map_of obj ''__proto__'' = None \<Longrightarrow>
     map_of (set_prop k v obj) n = (if k = n \<and> k \<noteq> ''__proto__'' then Some v else map_of obj n)"
  by (auto simp: set_prop_def update_conv' map_of_eq_None_iff)

lemma classify_proto:
  "map_of (fst acc) ''__proto__'' = None \<Longrightarrow> map_of (snd acc) ''__proto__'' = None \<Longrightarrow>
   classify ep args ps acc = Inr pq \<Longrightarrow>
     map_of (fst pq) ''__proto__'' = None \<and> map_of (snd pq) ''__proto__'' = None"
proof (induction ep args ps acc rule: classify.induct)
  case (1 endpoint args acc)
  then show ?case by simp
next
  case (2 endpoint args param rest acc)
  then show ?case
    by (auto simp: Let_def map_of_set_prop split: if_splits sum.splits)
qed

lemma classify_fst:
  "map_of (fst acc) ''__proto__'' = None \<Longrightarrow> classify ep args ps acc = Inr pq \<Longrightarrow>
   map_of (fst pq) n =
     (if n \<in> param_name ` set ps \<and> \<not> blank (get_prop args n)
          \<and> includes_str (path ep) (placeholder n) \<and> n \<noteq> ''__proto__''
      then Some (coerced (get_prop args n)) else map_of (fst acc) n)"
proof (induction ep args ps acc rule: classify.induct)
  case (1 endpoint args acc)
  then show ?case by simp
next
  case (2 endpoint args param rest acc)
  then show ?case
    by (auto simp: Let_def map_of_set_prop coerced_def split: if_splits sum.splits)
qed

lemma classify_snd:
  "map_of (snd acc) ''__proto__'' = None \<Longrightarrow> classify ep args ps acc = Inr pq \<Longrightarrow>
   map_of (snd pq) n =
     (if n \<in> param_name ` set ps \<and> \<not> blank (get_prop args n)
          \<and> \<not> includes_str (path ep) (placeholder n) \<and> n \<noteq> ''query'' \<and> n \<noteq> ''__proto__''
      then Some (get_prop args n) else map_of (snd acc) n)"
proof (induction ps arbitrary: acc)
  case Nil
  then show ?case by simp
next
  case (Cons p ps)
  let ?k = "param_name p"
  let ?v = "get_prop args ?k"
  consider (skip) "blank ?v"
    | (inpath) "\<not> blank ?v" "includes_str (path ep) (placeholder ?k)"
    | (query) "\<not> blank ?v" "\<not> includes_str (path ep) (placeholder ?k)" "?k \<noteq> ''query''"
    | (reserved) "\<not> blank ?v" "\<not> includes_str (path ep) (placeholder ?k)" "?k = ''query''"
    by blast
  then show ?case
  proof cases
    case skip
    with Cons.prems(2) have "classify ep args ps acc = Inr pq" by (simp add: Let_def)
    from Cons.IH [OF Cons.prems(1) this] skip show ?thesis by auto
  next
    case inpath
    with Cons.prems(2) obtain s where
      "classify ep args ps (set_prop ?k s (fst acc), snd acc) = Inr pq"
      by (cases "String_js ?v") (simp_all add: Let_def)
    from Cons.IH [OF _ this] Cons.prems(1) inpath show ?thesis by auto
  next
    case query
    with Cons.prems(2) have c: "classify ep args ps (fst acc, set_prop ?k ?v (snd acc)) = Inr pq"
      by (simp add: Let_def)
    have "map_of (snd (fst acc, set_prop ?k ?v (snd acc))) ''__proto__'' = None"
      using Cons.prems(1) by (simp add: map_of_set_prop)
    from Cons.IH [OF this c] Cons.prems(1) query show ?thesis
      by (simp add: map_of_set_prop) blast
  next
    case reserved
    with Cons.prems(2) have "classify ep args ps acc = Inr pq" by (simp add: Let_def)
    from Cons.IH [OF Cons.prems(1) this] reserved show ?thesis by auto
  qed
qed

lemma classify_returns:
  "\<forall>p \<in> set ps. \<not> blank (get_prop args (param_name p))
       \<and> includes_str (path ep) (placeholder (param_name p))
     \<longrightarrow> (\<exists>s. String_js (get_prop args (param_name p)) = Inr s) \<Longrightarrow>
     \<exists>pq. classify ep args ps acc = Inr pq"
  by (induction ep args ps acc rule: classify.induct) (auto simp: Let_def split: sum.splits)

lemma classify_throws:
  "\<exists>p \<in> set ps. \<not> blank (get_prop args (param_name p))
       \<and> includes_str (path ep) (placeholder (param_name p))
       \<and> (\<exists>e. String_js (get_prop args (param_name p)) = Inl e) \<Longrightarrow>
     classify ep args ps acc = Inl (ThrownError ''Cannot convert object to primitive value'')"
proof (induction ps arbitrary: acc)
  case Nil
  then show ?case by simp
next
  case (Cons p ps)
  let ?v = "get_prop args (param_name p)"
  let ?here = "\<not> blank ?v \<and> includes_str (path ep) (placeholder (param_name p))"
  show ?case
  proof (cases "?here \<and> (\<exists>e. String_js ?v = Inl e)")
    case True
    then obtain e where "String_js ?v = Inl e" by blast
    with String_js_message [OF this] True show ?thesis
      by (simp add: Let_def)
  next
    case False
    with Cons.prems have rest: "\<exists>p \<in> set ps. \<not> blank (get_prop args (param_name p))
       \<and> includes_str (path ep) (placeholder (param_name p))
       \<and> (\<exists>e. String_js (get_prop args (param_name p)) = Inl e)"
      by auto
    note IH = Cons.IH [OF rest]
    show ?thesis
    proof (cases "?here")
      case True
      with False obtain s where "String_js ?v = Inr s"
        by (cases "String_js ?v") auto
      with True show ?thesis by (simp add: Let_def IH)
    next
      case False
      then show ?thesis by (auto simp: Let_def IH)
    qed
  qed
qed

lemma get_prop_plain:
  "k \<in> {''query'', ''count'', ''start'', ''expand'', ''campaign_id''} \<Longrightarrow>
     get_prop args k = (case map_of args k of Some v \<Rightarrow> Data v | None \<Rightarrow> JUndefined)"
proof -
  have "inherited ''query'' = JUndefined" "inherited ''count'' = JUndefined"
    "inherited ''start'' = JUndefined" "inherited ''expand'' = JUndefined"
    "inherited ''campaign_id'' = JUndefined"
    by (simp_all add: inherited_def native_members_def)
  then show "k \<in> {''query'', ''count'', ''start'', ''expand'', ''campaign_id''} \<Longrightarrow> ?thesis"
    by (auto simp: get_prop_def split: option.splits)
qed

lemma buildSearchBody_throws:
  "truthy (get_prop args ''expand'') \<Longrightarrow> \<forall>s. get_prop args ''expand'' \<noteq> Data (JStr s) \<Longrightarrow>
     buildSearchBody tool args d = Inl (ThrownError ''args.expand.split is not a function'')"
  by (cases "get_prop args ''expand''"; cases "map_of args ''expand''")
    (auto simp: buildSearchBody_def Let_def get_prop_plain split: json.splits)

lemma buildSearchBody_returns:
  "\<not> truthy (get_prop args ''expand'') \<or> (\<exists>s. get_prop args ''expand'' = Data (JStr s)) \<Longrightarrow>
     \<exists>b. buildSearchBody tool args d = Inr b"
  by (cases "get_prop args ''expand''"; cases "map_of args ''expand''")
    (auto simp: buildSearchBody_def Let_def get_prop_plain split: json.splits)

lemma map_of_set_query: "map_of (set_prop ''query'' v b) ''query'' = Some v"
  by (simp add: set_prop_def update_conv')

lemma buildSearchBody_campaign:
  "buildSearchBody ''search_promotions'' args d = Inr b \<Longrightarrow>
   get_prop args ''campaign_id'' = Data c \<Longrightarrow> truthy_json c \<Longrightarrow>
     map_of b ''query'' = Some (term_query c)"
  by (auto simp: buildSearchBody_def Let_def map_of_set_query split: sum.splits)

lemma term_is_no_text: "term_query c \<noteq> text_query fs q"
  by (simp add: term_query_def text_query_def)

text \<open>
  C3 as stated fails in four places: a declared parameter named like a member of
  \<open>Object.prototype\<close> is placed in \<open>queryParams\<close> although the argument bag is empty,
  because reading it yields the inherited member; a path parameter whose value cannot be
  coerced to a string makes the builder throw, so that no parameters are built at all;
  a declared parameter \<open>__proto__\<close> is placed nowhere although its argument is present;
  and for a POST descriptor with a default body a truthy \<open>expand\<close> that is no string
  makes the builder throw after the classification.
\<close>

theorem inherited_member_classified:
  "buildRequestParams demo_loader ''get_b'' []
     = Inr \<lparr>pathParams = Some [], queryParams = Some [(''constructor'', Native ''Object'')],
            body = None\<rparr>
   \<and> buildRequestParams demo_loader ''get_a'' [(''x'', no_string), (''y'', JStr ''q'')]
     = Inl (ThrownError ''Cannot convert object to primitive value'')
   \<and> buildRequestParams demo_loader ''get_c'' [(''__proto__'', JStr ''v'')]
     = Inr \<lparr>pathParams = Some [], queryParams = Some [], body = None\<rparr>
   \<and> buildRequestParams demo_loader ''search_promotions''
       [(''site_id'', JStr ''RefArch''), (''expand'', JArr [JStr ''prices''])]
     = Inl (ThrownError ''args.expand.split is not a function'')"
  by (simp add: buildRequestParams_def demo_loader_lookup constructor_endpoint_def
      classified_endpoint_def proto_endpoint_def search_promotions_endpoint_def get_prop_def
      inherited_def native_members_def placeholder_def set_prop_def no_string_def Let_def
      buildSearchBody_def entries_def is_index_def)

text \<open>
  C3 as amended: for a descriptor of the registry and any argument bag, the value of a
  declared parameter is what reading its name from the bag yields (the own property,
  else the member inherited from \<open>Object.prototype\<close>, else \<open>undefined\<close>). When the value
  of some parameter whose name is in the path as \<open>{name}\<close> is not blank and cannot be
  coerced to a string, the builder throws the \<open>TypeError\<close> of the coercion. Otherwise,
  for a POST descriptor with a default body and a truthy \<open>expand\<close> argument that is no
  string, it throws the \<open>TypeError\<close> of \<open>split\<close>. In every other case it returns
  parameters in which every declared parameter is classified: with a value that is
  \<open>undefined\<close>, \<open>null\<close> or the empty string, or with the name \<open>__proto__\<close>, it is in
  neither map; otherwise, with its name as \<open>{name}\<close> in the path, it is in \<open>pathParams\<close>
  only, string-coerced; otherwise, unless it is named \<open>query\<close>, it is in \<open>queryParams\<close>
  only, with its value; \<open>query\<close> outside the path is in neither. The two maps share no
  key and hold declared names only.
\<close>

theorem parameter_classification:
  assumes "getEndpoint loader tool = Some ep"
  shows
    "((\<exists>p \<in> set (parameters ep).
         \<not> blank (get_prop args (param_name p))
         \<and> includes_str (path ep) (placeholder (param_name p))
         \<and> (\<exists>e. String_js (get_prop args (param_name p)) = Inl e)) \<longrightarrow>
        buildRequestParams loader tool args
          = Inl (ThrownError ''Cannot convert object to primitive value''))
     \<and> ((\<forall>p \<in> set (parameters ep).
           \<not> blank (get_prop args (param_name p))
           \<and> includes_str (path ep) (placeholder (param_name p))
           \<longrightarrow> (\<exists>s. String_js (get_prop args (param_name p)) = Inr s)) \<longrightarrow>
         (http_method ep = ''POST'' \<and> defaultBody ep \<noteq> None
            \<and> truthy (get_prop args ''expand'')
            \<and> (\<forall>s. get_prop args ''expand'' \<noteq> Data (JStr s)) \<longrightarrow>
            buildRequestParams loader tool args
              = Inl (ThrownError ''args.expand.split is not a function''))
         \<and> (\<not> (http_method ep = ''POST'' \<and> defaultBody ep \<noteq> None
                \<and> truthy (get_prop args ''expand'')
                \<and> (\<forall>s. get_prop args ''expand'' \<noteq> Data (JStr s))) \<longrightarrow>
            (\<exists>pp qp b.
               buildRequestParams loader tool args
                 = Inr \<lparr>pathParams = Some pp, queryParams = Some qp, body = b\<rparr>
               \<and> (\<forall>n \<in> param_name ` set (parameters ep).
                     (blank (get_prop args n) \<or> n = ''__proto__'' \<longrightarrow>
                        map_of pp n = None \<and> map_of qp n = None)
                   \<and> (\<not> blank (get_prop args n) \<and> n \<noteq> ''__proto__''
                        \<and> includes_str (path ep) (placeholder n) \<longrightarrow>
                        (\<exists>s. String_js (get_prop args n) = Inr s \<and> map_of pp n = Some s)
                        \<and> map_of qp n = None)
                   \<and> (\<not> blank (get_prop args n) \<and> n \<noteq> ''__proto__''
                        \<and> \<not> includes_str (path ep) (placeholder n) \<and> n \<noteq> ''query'' \<longrightarrow>
                        map_of qp n = Some (get_prop args n) \<and> map_of pp n = None)
                   \<and> (n = ''query'' \<and> \<not> includes_str (path ep) (placeholder n) \<longrightarrow>
                        map_of pp n = None \<and> map_of qp n = None))
               \<and> (\<forall>n. n \<notin> param_name ` set (parameters ep) \<longrightarrow>
                     map_of pp n = None \<and> map_of qp n = None)
               \<and> (\<forall>n. map_of pp n = None \<or> map_of qp n = None))))"
proof (intro conjI impI)
  assume "\<exists>p \<in> set (parameters ep).
         \<not> blank (get_prop args (param_name p))
         \<and> includes_str (path ep) (placeholder (param_name p))
         \<and> (\<exists>e. String_js (get_prop args (param_name p)) = Inl e)"
  from classify_throws [OF this, of "([], [])"] assms
  show "buildRequestParams loader tool args
          = Inl (ThrownError ''Cannot convert object to primitive value'')"
    by (simp add: buildRequestParams_def)
next
  assume ok: "\<forall>p \<in> set (parameters ep).
           \<not> blank (get_prop args (param_name p))
           \<and> includes_str (path ep) (placeholder (param_name p))
           \<longrightarrow> (\<exists>s. String_js (get_prop args (param_name p)) = Inr s)"
  from classify_returns [OF this, of "([], [])"]
  obtain pq where pq: "classify ep args (parameters ep) ([], []) = Inr pq" by blast
  {
    assume bad: "http_method ep = ''POST'' \<and> defaultBody ep \<noteq> None
            \<and> truthy (get_prop args ''expand'')
            \<and> (\<forall>s. get_prop args ''expand'' \<noteq> Data (JStr s))"
    then obtain d where d: "defaultBody ep = Some d" by auto
    from bad have "buildSearchBody tool args d
                     = Inl (ThrownError ''args.expand.split is not a function'')"
      by (intro buildSearchBody_throws) simp_all
    with assms pq bad d
    show "buildRequestParams loader tool args
              = Inl (ThrownError ''args.expand.split is not a function'')"
      by (simp add: buildRequestParams_def)
  }
  {
    assume good: "\<not> (http_method ep = ''POST'' \<and> defaultBody ep \<noteq> None
                \<and> truthy (get_prop args ''expand'')
                \<and> (\<forall>s. get_prop args ''expand'' \<noteq> Data (JStr s)))"
    have "\<exists>b. buildRequestParams loader tool args
                 = Inr \<lparr>pathParams = Some (fst pq), queryParams = Some (snd pq), body = b\<rparr>"
    proof (cases "http_method ep = ''POST'' \<and> defaultBody ep \<noteq> None")
      case True
      then obtain d where d: "defaultBody ep = Some d" by auto
      from True good
      have "\<not> truthy (get_prop args ''expand'') \<or> (\<exists>s. get_prop args ''expand'' = Data (JStr s))"
        by blast
      from buildSearchBody_returns [OF this]
      obtain b where "buildSearchBody tool args d = Inr b" by blast
      with assms pq True d show ?thesis
        by (simp add: buildRequestParams_def)
    next
      case False
      with assms pq show ?thesis
        by (auto simp: buildRequestParams_def split: option.splits)
    qed
    then obtain b where r: "buildRequestParams loader tool args
                 = Inr \<lparr>pathParams = Some (fst pq), queryParams = Some (snd pq), body = b\<rparr>"
      by blast
    have f: "map_of (fst pq) n =
              (if n \<in> param_name ` set (parameters ep) \<and> \<not> blank (get_prop args n)
                  \<and> includes_str (path ep) (placeholder n) \<and> n \<noteq> ''__proto__''
               then Some (coerced (get_prop args n)) else None)" for n
      using classify_fst [OF _ pq, of n] by simp
    have s: "map_of (snd pq) n =
              (if n \<in> param_name ` set (parameters ep) \<and> \<not> blank (get_prop args n)
                  \<and> \<not> includes_str (path ep) (placeholder n) \<and> n \<noteq> ''query''
                  \<and> n \<noteq> ''__proto__''
               then Some (get_prop args n) else None)" for n
      using classify_snd [OF _ pq, of n] by simp
    have c: "n \<in> param_name ` set (parameters ep) \<Longrightarrow> \<not> blank (get_prop args n) \<Longrightarrow>
             includes_str (path ep) (placeholder n) \<Longrightarrow>
               String_js (get_prop args n) = Inr (coerced (get_prop args n))" for n
      using ok by (auto simp: coerced_def)
    have "(\<forall>n \<in> param_name ` set (parameters ep).
                     (blank (get_prop args n) \<or> n = ''__proto__'' \<longrightarrow>
                        map_of (fst pq) n = None \<and> map_of (snd pq) n = None)
                   \<and> (\<not> blank (get_prop args n) \<and> n \<noteq> ''__proto__''
                        \<and> includes_str (path ep) (placeholder n) \<longrightarrow>
                        (\<exists>s. String_js (get_prop args n) = Inr s \<and> map_of (fst pq) n = Some s)
                        \<and> map_of (snd pq) n = None)
                   \<and> (\<not> blank (get_prop args n) \<and> n \<noteq> ''__proto__''
                        \<and> \<not> includes_str (path ep) (placeholder n) \<and> n \<noteq> ''query'' \<longrightarrow>
                        map_of (snd pq) n = Some (get_prop args n) \<and> map_of (fst pq) n = None)
                   \<and> (n = ''query'' \<and> \<not> includes_str (path ep) (placeholder n) \<longrightarrow>
                        map_of (fst pq) n = None \<and> map_of (snd pq) n = None))"
      using c by (simp add: f s)
    moreover have "\<forall>n. n \<notin> param_name ` set (parameters ep) \<longrightarrow>
                     map_of (fst pq) n = None \<and> map_of (snd pq) n = None"
      by (simp add: f s)
    moreover have "\<forall>n. map_of (fst pq) n = None \<or> map_of (snd pq) n = None"
      by (simp add: f s)
    ultimately
    show "\<exists>pp qp b.
               buildRequestParams loader tool args
                 = Inr \<lparr>pathParams = Some pp, queryParams = Some qp, body = b\<rparr>
               \<and> (\<forall>n \<in> param_name ` set (parameters ep).
                     (blank (get_prop args n) \<or> n = ''__proto__'' \<longrightarrow>
                        map_of pp n = None \<and> map_of qp n = None)
                   \<and> (\<not> blank (get_prop args n) \<and> n \<noteq> ''__proto__''
                        \<and> includes_str (path ep) (placeholder n) \<longrightarrow>
                        (\<exists>s. String_js (get_prop args n) = Inr s \<and> map_of pp n = Some s)
                        \<and> map_of qp n = None)
                   \<and> (\<not> blank (get_prop args n) \<and> n \<noteq> ''__proto__''
                        \<and> \<not> includes_str (path ep) (placeholder n) \<and> n \<noteq> ''query'' \<longrightarrow>
                        map_of qp n = Some (get_prop args n) \<and> map_of pp n = None)
                   \<and> (n = ''query'' \<and> \<not> includes_str (path ep) (placeholder n) \<longrightarrow>
                        map_of pp n = None \<and> map_of qp n = None))
               \<and> (\<forall>n. n \<notin> param_name ` set (parameters ep) \<longrightarrow>
                     map_of pp n = None \<and> map_of qp n = None)
               \<and> (\<forall>n. map_of pp n = None \<or> map_of qp n = None)"
      using r by blast
  }
qed

theorem parameter_classification_witness:
  "getEndpoint demo_loader ''get_a'' = Some classified_endpoint
   \<and> buildRequestParams demo_loader ''get_a'' [(''x'', JStr ''v''), (''y'', JStr ''q'')]
     = Inr \<lparr>pathParams = Some [(''x'', ''v'')], queryParams = Some [(''y'', Data (JStr ''q''))],
            body = None\<rparr>
   \<and> buildRequestParams demo_loader ''get_a'' [(''x'', JNum ''7''), (''y'', JNull)]
     = Inr \<lparr>pathParams = Some [(''x'', ''7'')], queryParams = Some [], body = None\<rparr>
   \<and> buildRequestParams demo_loader ''get_a'' [(''x'', no_string)]
     = Inl (ThrownError ''Cannot convert object to primitive value'')
   \<and> buildRequestParams demo_loader ''search_promotions''
        [(''site_id'', JStr ''RefArch''), (''expand'', JNum ''5'')]
     = Inl (ThrownError ''args.expand.split is not a function'')"
  using parameter_classification
      [of demo_loader "''get_a''" classified_endpoint
        "[(''x'', JStr ''v''), (''y'', JStr ''q'')]"]
    parameter_classification
      [of demo_loader "''get_a''" classified_endpoint "[(''x'', JNum ''7''), (''y'', JNull)]"]
    parameter_classification
      [of demo_loader "''get_a''" classified_endpoint "[(''x'', no_string)]"]
    parameter_classification
      [of demo_loader "''search_promotions''" search_promotions_endpoint
        "[(''site_id'', JStr ''RefArch''), (''expand'', JNum ''5'')]"]
  by (simp add: buildRequestParams_def demo_loader_lookup classified_endpoint_def
      search_promotions_endpoint_def get_prop_def inherited_def native_members_def
      placeholder_def set_prop_def no_string_def Let_def buildSearchBody_def entries_def
      is_index_def)

lemma get_promotions_lookup:
  "getEndpoint get_promotions_loader ''search_promotions''
     = Some (search_promotions_endpoint\<lparr>http_method := ''GET''\<rparr>)"
  by (simp add: get_promotions_loader_def getEndpoint_def new_EndpointLoader_def
      loadEndpoints_def search_promotions_endpoint_def)

lemma site_promotions_lookup:
  "getEndpoint site_promotions_loader ''search_promotions''
     = Some (search_promotions_endpoint\<lparr>path := ''/sites/{site_id}/promotions''\<rparr>)"
  by (simp add: site_promotions_loader_def getEndpoint_def new_EndpointLoader_def
      loadEndpoints_def search_promotions_endpoint_def)

text \<open>
  C1 as stated fails in three places. The override tests the truthiness of
  \<open>campaign_id\<close>, not its presence: with \<open>campaign_id\<close> the empty string or the number
  \<open>0\<close>, the bag holds both arguments and the body keeps the text query. With a truthy
  \<open>expand\<close> that is no string, or with a path parameter whose value cannot be coerced
  to a string, the builder throws before the override is reached. And for a
  promotion-search descriptor that is no POST with a default body, no body is built at
  all.
\<close>

theorem falsy_campaign_keeps_text_query:
  "buildRequestParams demo_loader ''search_promotions''
     [(''query'', JStr ''sale''), (''campaign_id'', JStr [])]
     = Inr \<lparr>pathParams = Some [], queryParams = Some [],
            body = Some [(''query'', text_query [''id'', ''name''] (JStr ''sale''))]\<rparr>
   \<and> buildRequestParams demo_loader ''search_promotions''
       [(''query'', JStr ''sale''), (''campaign_id'', JNum ''0'')]
     = Inr \<lparr>pathParams = Some [], queryParams = Some [(''campaign_id'', Data (JNum ''0''))],
            body = Some [(''query'', text_query [''id'', ''name''] (JStr ''sale''))]\<rparr>
   \<and> buildRequestParams demo_loader ''search_promotions''
       [(''query'', JStr ''sale''), (''campaign_id'', JStr ''summer''), (''expand'', JNum ''5'')]
     = Inl (ThrownError ''args.expand.split is not a function'')
   \<and> buildRequestParams get_promotions_loader ''search_promotions''
       [(''query'', JStr ''sale''), (''campaign_id'', JStr ''summer'')]
     = Inr \<lparr>pathParams = Some [],
            queryParams = Some [(''campaign_id'', Data (JStr ''summer''))], body = None\<rparr>
   \<and> buildRequestParams site_promotions_loader ''search_promotions''
       [(''site_id'', no_string), (''query'', JStr ''sale''), (''campaign_id'', JStr ''summer'')]
     = Inl (ThrownError ''Cannot convert object to primitive value'')"
  by (simp add: buildRequestParams_def demo_loader_lookup get_promotions_lookup
      site_promotions_lookup no_string_def
      search_promotions_endpoint_def get_prop_def inherited_def native_members_def
      placeholder_def set_prop_def Let_def buildSearchBody_def entries_def is_index_def
      getSearchFieldsForTool_def)

text \<open>
  C1 as amended: for the promotion-search tool registered as a POST descriptor with a
  default body, and an argument bag whose \<open>campaign_id\<close> is truthy: when every path
  parameter's value can be coerced to a string and \<open>expand\<close> is falsy or a string, the
  builder returns parameters whose body has as \<open>query\<close> exactly the term query
  \<open>{term_query: {fields: ["campaign_id"], operator: "is", values: [campaign_id]}}\<close>,
  which is no text query, whatever the \<open>query\<close> argument is; otherwise the builder
  throws an \<open>Error\<close>.
\<close>

theorem campaign_override:
  assumes "getEndpoint loader ''search_promotions'' = Some ep"
    and "http_method ep = ''POST''" and "defaultBody ep = Some db"
    and "truthy (get_prop args ''campaign_id'')"
  shows
    "((\<forall>p \<in> set (parameters ep).
         \<not> blank (get_prop args (param_name p))
         \<and> includes_str (path ep) (placeholder (param_name p))
         \<longrightarrow> (\<exists>s. String_js (get_prop args (param_name p)) = Inr s))
      \<and> (\<not> truthy (get_prop args ''expand'') \<or> (\<exists>s. get_prop args ''expand'' = Data (JStr s)))
      \<longrightarrow>
        (\<exists>pp qp b c.
           buildRequestParams loader ''search_promotions'' args
             = Inr \<lparr>pathParams = Some pp, queryParams = Some qp, body = Some b\<rparr>
           \<and> get_prop args ''campaign_id'' = Data c
           \<and> map_of b ''query'' = Some (term_query c)
           \<and> (\<forall>fs q. map_of b ''query'' \<noteq> Some (text_query fs q))))
     \<and> (\<not> ((\<forall>p \<in> set (parameters ep).
               \<not> blank (get_prop args (param_name p))
               \<and> includes_str (path ep) (placeholder (param_name p))
               \<longrightarrow> (\<exists>s. String_js (get_prop args (param_name p)) = Inr s))
            \<and> (\<not> truthy (get_prop args ''expand'')
                \<or> (\<exists>s. get_prop args ''expand'' = Data (JStr s))))
      \<longrightarrow> (\<exists>m. buildRequestParams loader ''search_promotions'' args = Inl (ThrownError m)))"
proof (intro conjI impI)
  assume ok: "(\<forall>p \<in> set (parameters ep).
         \<not> blank (get_prop args (param_name p))
         \<and> includes_str (path ep) (placeholder (param_name p))
         \<longrightarrow> (\<exists>s. String_js (get_prop args (param_name p)) = Inr s))
      \<and> (\<not> truthy (get_prop args ''expand'') \<or> (\<exists>s. get_prop args ''expand'' = Data (JStr s)))"
  from classify_returns [of "parameters ep" args ep "([], [])"] ok
  obtain pq where pq: "classify ep args (parameters ep) ([], []) = Inr pq" by blast
  from buildSearchBody_returns [of args "''search_promotions''" db] ok
  obtain b where b: "buildSearchBody ''search_promotions'' args db = Inr b" by blast
  from assms(4) obtain c where c: "get_prop args ''campaign_id'' = Data c" and t: "truthy_json c"
    by (cases "map_of args ''campaign_id''") (auto simp: get_prop_plain)
  have q: "map_of b ''query'' = Some (term_query c)"
    using b c t by (rule buildSearchBody_campaign)
  have "buildRequestParams loader ''search_promotions'' args
          = Inr \<lparr>pathParams = Some (fst pq), queryParams = Some (snd pq), body = Some b\<rparr>"
    using assms(1-3) pq b by (simp add: buildRequestParams_def)
  with c q term_is_no_text
  show "\<exists>pp qp b c.
           buildRequestParams loader ''search_promotions'' args
             = Inr \<lparr>pathParams = Some pp, queryParams = Some qp, body = Some b\<rparr>
           \<and> get_prop args ''campaign_id'' = Data c
           \<and> map_of b ''query'' = Some (term_query c)
           \<and> (\<forall>fs q. map_of b ''query'' \<noteq> Some (text_query fs q))"
    by auto
next
  assume bad: "\<not> ((\<forall>p \<in> set (parameters ep).
               \<not> blank (get_prop args (param_name p))
               \<and> includes_str (path ep) (placeholder (param_name p))
               \<longrightarrow> (\<exists>s. String_js (get_prop args (param_name p)) = Inr s))
            \<and> (\<not> truthy (get_prop args ''expand'')
                \<or> (\<exists>s. get_prop args ''expand'' = Data (JStr s))))"
  show "\<exists>m. buildRequestParams loader ''search_promotions'' args = Inl (ThrownError m)"
  proof (cases "\<forall>p \<in> set (parameters ep).
               \<not> blank (get_prop args (param_name p))
               \<and> includes_str (path ep) (placeholder (param_name p))
               \<longrightarrow> (\<exists>s. String_js (get_prop args (param_name p)) = Inr s)")
    case True
    from classify_returns [OF True, of "([], [])"]
    obtain pq where pq: "classify ep args (parameters ep) ([], []) = Inr pq" by blast
    from True bad have "truthy (get_prop args ''expand'')"
      and "\<forall>s. get_prop args ''expand'' \<noteq> Data (JStr s)" by auto
    then have "buildSearchBody ''search_promotions'' args db
                 = Inl (ThrownError ''args.expand.split is not a function'')"
      by (rule buildSearchBody_throws)
    with assms(1-3) pq show ?thesis
      by (simp add: buildRequestParams_def)
  next
    case False
    then have "\<exists>p \<in> set (parameters ep).
         \<not> blank (get_prop args (param_name p))
         \<and> includes_str (path ep) (placeholder (param_name p))
         \<and> (\<exists>e. String_js (get_prop args (param_name p)) = Inl e)"
      by (metis sum.exhaust)
    from classify_throws [OF this, of "([], [])"] assms(1) show ?thesis
      by (simp add: buildRequestParams_def)
  qed
qed

theorem campaign_override_witness:
  "getEndpoint demo_loader ''search_promotions'' = Some search_promotions_endpoint
   \<and> http_method search_promotions_endpoint = ''POST''
   \<and> defaultBody search_promotions_endpoint
       = Some [(''query'', JObj [(''match_all_query'', JObj [])])]
   \<and> truthy (get_prop [(''query'', JStr ''sale''), (''campaign_id'', JStr ''summer'')]
        ''campaign_id'')
   \<and> buildRequestParams demo_loader ''search_promotions''
        [(''query'', JStr ''sale''), (''campaign_id'', JStr ''summer'')]
     = Inr \<lparr>pathParams = Some [],
            queryParams = Some [(''campaign_id'', Data (JStr ''summer''))],
            body = Some [(''query'',
              JObj [(''term_query'',
                JObj [(''fields'', JArr [JStr ''campaign_id'']), (''operator'', JStr ''is''),
                      (''values'', JArr [JStr ''summer''])])])]\<rparr>
   \<and> buildRequestParams demo_loader ''search_promotions''
        [(''campaign_id'', JStr ''summer''), (''expand'', JBool True)]
     = Inl (ThrownError ''args.expand.split is not a function'')"
  using campaign_override
      [OF demo_loader_lookup(3), of "[(''query'', JObj [(''match_all_query'', JObj [])])]"
        "[(''query'', JStr ''sale''), (''campaign_id'', JStr ''summer'')]"]
    campaign_override
      [OF demo_loader_lookup(3), of "[(''query'', JObj [(''match_all_query'', JObj [])])]"
        "[(''campaign_id'', JStr ''summer''), (''expand'', JBool True)]"]
  by (simp add: buildRequestParams_def demo_loader_lookup
      search_promotions_endpoint_def get_prop_def inherited_def native_members_def
      placeholder_def set_prop_def Let_def buildSearchBody_def entries_def is_index_def
      getSearchFieldsForTool_def term_query_def text_query_def)

section \<open>The capability gate\<close>

text \<open>
  C9: without the data-API capability \<open>onInitialize\<close> leaves the dispatcher unset, and
  then a handled call on an owned tool name gives the error envelope whose text holds
  "not initialized", no request reaches the transport, nothing is thrown, and the
  handler stays in that state, so the same holds for every later call. The source's own
  guard in the handler's \<open>executeEndpoint\<close> throws the same message without a request.
\<close>

theorem capability_gate_closed:
  assumes "\<not> canAccessOCAPI (capabilities (handler_context h))"
    and "dataAPIClient h = None" and "canHandle h name"
  shows "\<exists>msg h'. handle b h tr name args
                     = (Inr \<lparr>content = [TextContent msg], isError = True\<rparr>, [], h')
           \<and> includes_str msg ''not initialized''
           \<and> dataAPIClient h' = None
           \<and> \<not> canAccessOCAPI (capabilities (handler_context h'))
           \<and> toolNameSet h' = toolNameSet h
           \<and> handler_executeEndpoint (dataAPIClient h') (endpointLoader h') tr name args
               = (Inl (ThrownError msg), [])"
proof -
  have inc: "includes_str not_initialized ''not initialized''"
    by (simp add: not_initialized_def)
  have i: "dataAPIClient (initialize b h) = None"
    and c: "\<not> canAccessOCAPI (capabilities (handler_context (initialize b h)))"
    and t: "toolNameSet (initialize b h) = toolNameSet h"
    using assms(1,2) by (simp_all add: initialize_def onInitialize_def)
  have "handle b h tr name args = (Inr (errorEnvelope not_initialized), [], initialize b h)"
    using assms(3) i by (simp add: handle_def Let_def)
  moreover have "handler_executeEndpoint (dataAPIClient (initialize b h))
                    (endpointLoader (initialize b h)) tr name args
                  = (Inl (ThrownError not_initialized), [])"
    by (simp add: i handler_executeEndpoint_def)
  ultimately show ?thesis
    using inc i c t by (simp add: errorEnvelope_def)
qed

theorem capability_gate_closed_witness:
  "\<not> canAccessOCAPI (capabilities (handler_context gated_handler))
   \<and> dataAPIClient gated_handler = None
   \<and> canHandle gated_handler ''get_product''
   \<and> fst (handle (\<lambda>c. ''https://host'') gated_handler echo_transport ''get_product'' [])
       = Inr \<lparr>content = [TextContent ''Data API client not initialized. Check OCAPI credentials.''],
              isError = True\<rparr>
   \<and> fst (snd (handle (\<lambda>c. ''https://host'') gated_handler echo_transport ''get_product'' [])) = []"
proof -
  have a: "\<not> canAccessOCAPI (capabilities (handler_context gated_handler))"
    by (simp add: gated_handler_def new_DataAPIToolHandler_def getCapabilities_def
        basic_auth_config_def given_def Let_def)
  have n: "dataAPIClient gated_handler = None"
    by (simp add: gated_handler_def new_DataAPIToolHandler_def)
  have o: "canHandle gated_handler ''get_product''"
    by (simp add: canHandle_def gated_handler_def new_DataAPIToolHandler_def getToolNameSet_def
        getToolNames_def demo_loader_def new_EndpointLoader_def loadEndpoints_def
        get_product_endpoint_def)
  from capability_gate_closed [OF a n o, of "\<lambda>c. ''https://host''" echo_transport "[]"]
  obtain msg h' where
    "handle (\<lambda>c. ''https://host'') gated_handler echo_transport ''get_product'' []
       = (Inr \<lparr>content = [TextContent msg], isError = True\<rparr>, [], h')"
    by blast
  moreover have "fst (handle (\<lambda>c. ''https://host'') gated_handler echo_transport ''get_product'' [])
     = Inr (errorEnvelope not_initialized)"
    using a n o by (simp add: handle_def Let_def initialize_def onInitialize_def)
  ultimately show ?thesis
    using a n o by (simp add: errorEnvelope_def not_initialized_def)
qed

end
